theory Spec2Isabelle
  imports Main "HOL-Library.Sublist"
begin

section \<open>The onboarding and authentication flow of AuthFlowModal\<close>

text \<open>
  The development embeds the flow engine of the modal component: the step configuration
  (\<open>getStepConfig\<close>), the draft persistence effects, the one-shot latch of the claim
  auto-completion, the authentication handlers and the commit (\<open>handleComplete\<close> with
  \<open>createProviderProfile\<close> and \<open>createFamilyProfile\<close>). React state is a record that
  each handler takes and returns; every call to the outside (identity gateway, tables,
  local storage) is appended to a log, and what the outside answers is an argument.
\<close>

subsection \<open>JavaScript strings\<close>

text \<open>
  A string is a list of characters; a string is truthy when it is not empty.
  \<open>String.prototype.trim\<close> strips white space at both ends; the white space of
  the eight-bit characters is TAB, LF, VT, FF, CR, SPACE and NBSP.
\<close>

definition js_whitespace :: "char \<Rightarrow> bool" where
  "js_whitespace c = ((of_char c :: nat) \<in> set [9, 10, 11, 12, 13, 32, 160])"

definition js_trim :: "string \<Rightarrow> string" where
  "js_trim s = rev (dropWhile js_whitespace (rev (dropWhile js_whitespace s)))"

text \<open>\<open>haystack.includes(needle)\<close>: the needle occurs as a contiguous run.\<close>

fun str_includes :: "string \<Rightarrow> string \<Rightarrow> bool" where
  "str_includes [] needle = (needle = [])"
| "str_includes (c # cs) needle = (prefix needle (c # cs) \<or> str_includes cs needle)"

text \<open>\<open>a || b\<close> on strings: the first operand when it is truthy, else the second.\<close>

definition str_or :: "string \<Rightarrow> string \<Rightarrow> string" where
  "str_or a b = (if a \<noteq> [] then a else b)"

text \<open>\<open>a || null\<close> on a string: the string when truthy, else null.\<close>

definition str_or_null :: "string \<Rightarrow> string option" where
  "str_or_null a = (if a \<noteq> [] then Some a else None)"

text \<open>Truthiness of a nullable string: neither null nor empty.\<close>

definition truthy :: "string option \<Rightarrow> bool" where
  "truthy v = (case v of None \<Rightarrow> False | Some s \<Rightarrow> s \<noteq> [])"

text \<open>\<open>v?.trim()\<close> is truthy: the value is there and is not blank.\<close>

definition truthy_trim :: "string option \<Rightarrow> bool" where
  "truthy_trim v = (case v of None \<Rightarrow> False | Some s \<Rightarrow> js_trim s \<noteq> [])"

subsection \<open>Types\<close>

datatype UserIntent = Family | Provider

datatype ProviderType = Organization | Caregiver

datatype AuthFlowStep =
    S_intent
  | S_provider_type
  | S_provider_info
  | S_org_search
  | S_visibility
  | S_family_info
  | S_family_needs
  | S_auth
  | S_verify_code

text \<open>
  Modelled from the spec: the type \<open>Profile\<close> is declared in \<open>lib/types\<close>, which is
  not among the sources. The record holds the columns of a listing that the modal reads
  or writes; each nullable column is an option, as the guards \<open>||\<close> and \<open>?.\<close> of the
  source treat it.
\<close>

record Profile =
  p_id :: string
  p_account_id :: "string option"
  p_claim_state :: string
  p_display_name :: "string option"
  p_city :: "string option"
  p_state :: "string option"
  p_zip :: "string option"
  p_care_types :: "string list option"
  p_category :: "string option"
  p_description :: "string option"
  p_phone :: "string option"

record FlowData =
  email :: string
  password :: string
  displayName :: string
  intent :: "UserIntent option"
  providerType :: "ProviderType option"
  orgName :: string
  city :: string
  state :: string
  zipcode :: string
  careTypes :: "string list"
  category :: "string option"
  description :: string
  phone :: string
  visibleToFamilies :: bool
  visibleToProviders :: bool
  claimedProfileId :: "string option"
  claimedProfile :: "Profile option"
  careRecipientName :: string
  careRecipientRelation :: string
  careNeeds :: "string list"

definition INITIAL_DATA :: FlowData where
  "INITIAL_DATA = \<lparr> email = [], password = [], displayName = [], intent = None,
     providerType = None, orgName = [], city = [], state = [], zipcode = [],
     careTypes = [], category = None, description = [], phone = [],
     visibleToFamilies = True, visibleToProviders = True,
     claimedProfileId = None, claimedProfile = None,
     careRecipientName = [], careRecipientRelation = [], careNeeds = [] \<rparr>"

text \<open>The props of the modal, without \<open>isOpen\<close> and \<open>onClose\<close>.\<close>

record Props =
  initialIntent :: "UserIntent option"
  initialProviderType :: "ProviderType option"
  claimProfile :: "Profile option"
  defaultToSignIn :: bool

subsection \<open>Step configuration\<close>

record StepConfig =
  title :: string
  stepNumber :: nat
  totalSteps :: nat

text \<open>
  \<open>stepMap[step] || 1\<close>: a step that is not a key of the map gives \<open>undefined\<close>,
  and both \<open>undefined\<close> and \<open>0\<close> are falsy.
\<close>

definition or_one :: "nat option \<Rightarrow> nat" where
  "or_one v = (case v of None \<Rightarrow> 1 | Some n \<Rightarrow> if n = 0 then 1 else n)"

definition provider_stepMap :: "bool \<Rightarrow> AuthFlowStep \<Rightarrow> nat option" where
  "provider_stepMap isOrg step =
     (case step of
        S_intent \<Rightarrow> Some 0
      | S_provider_type \<Rightarrow> Some 1
      | S_provider_info \<Rightarrow> Some 2
      | S_org_search \<Rightarrow> Some 3
      | S_visibility \<Rightarrow> Some (if isOrg then 3 else 2)
      | S_auth \<Rightarrow> Some (if isOrg then 4 else 3)
      | S_verify_code \<Rightarrow> Some (if isOrg then 4 else 3)
      | _ \<Rightarrow> None)"

definition family_stepMap :: "AuthFlowStep \<Rightarrow> nat option" where
  "family_stepMap step =
     (case step of
        S_intent \<Rightarrow> Some 0
      | S_family_info \<Rightarrow> Some 1
      | S_family_needs \<Rightarrow> Some 2
      | S_auth \<Rightarrow> Some 3
      | S_verify_code \<Rightarrow> Some 3
      | _ \<Rightarrow> None)"

definition titles :: "FlowData \<Rightarrow> AuthFlowStep \<Rightarrow> string" where
  "titles data step =
     (case step of
        S_intent \<Rightarrow> ''Welcome to Olera''
      | S_provider_type \<Rightarrow> ''Tell us about yourself''
      | S_provider_info \<Rightarrow>
          (if providerType data = Some Organization then ''About your organization''
           else ''About you'')
      | S_org_search \<Rightarrow> ''Is your organization listed?''
      | S_visibility \<Rightarrow> ''Who can find you?''
      | S_family_info \<Rightarrow> ''Who needs care?''
      | S_family_needs \<Rightarrow> ''Care preferences''
      | S_auth \<Rightarrow> ''Create your account''
      | S_verify_code \<Rightarrow> ''Verify your email'')"

definition getStepConfig :: "AuthFlowStep \<Rightarrow> FlowData \<Rightarrow> bool \<Rightarrow> StepConfig" where
  "getStepConfig step data isAuthenticated =
     (let isProvider = (intent data = Some Provider);
          isOrg = (providerType data = Some Organization)
      in if isProvider then
           \<lparr> title = titles data step,
             stepNumber = or_one (provider_stepMap isOrg step),
             totalSteps = (if isOrg then 3 else 2) + (if \<not> isAuthenticated then 1 else 0) \<rparr>
         else
           \<lparr> title = titles data step,
             stepNumber = or_one (family_stepMap step),
             totalSteps = (if isAuthenticated then 2 else 3) \<rparr>)"

text \<open>The step and the data a flow starts with (\<open>getInitialStep\<close>, the initialiser of \<open>data\<close>).\<close>

definition getInitialStep :: "Props \<Rightarrow> AuthFlowStep" where
  "getInitialStep props =
     (if claimProfile props \<noteq> None then S_auth
      else if initialIntent props = Some Provider then
        (if initialProviderType props \<noteq> None then S_provider_info else S_provider_type)
      else if initialIntent props = Some Family then S_family_info
      else S_intent)"

definition opt_str :: "string option \<Rightarrow> string" where
  "opt_str v = (case v of None \<Rightarrow> [] | Some s \<Rightarrow> s)"

definition initialData :: "Props \<Rightarrow> FlowData" where
  "initialData props =
     (case claimProfile props of
        Some cp \<Rightarrow>
          INITIAL_DATA \<lparr> intent := Some Provider, providerType := Some Organization,
            orgName := opt_str (p_display_name cp), city := opt_str (p_city cp),
            state := opt_str (p_state cp), zipcode := opt_str (p_zip cp),
            careTypes := (case p_care_types cp of None \<Rightarrow> [] | Some ts \<Rightarrow> ts),
            category := p_category cp, description := opt_str (p_description cp),
            phone := opt_str (p_phone cp), claimedProfileId := Some (p_id cp),
            claimedProfile := Some cp \<rparr>
      | None \<Rightarrow>
          INITIAL_DATA \<lparr> intent := initialIntent props,
            providerType := initialProviderType props,
            claimedProfileId := None, claimedProfile := None \<rparr>)"

text \<open>The progress line "Step n of m" is rendered when \<open>showProgress\<close> holds.\<close>

definition showProgress :: "AuthFlowStep \<Rightarrow> FlowData \<Rightarrow> bool" where
  "showProgress stp fd = (stp \<noteq> S_intent \<and> intent fd \<noteq> None)"

subsection \<open>Validation of the provider-info step\<close>

definition isProviderInfoValid :: "FlowData \<Rightarrow> bool" where
  "isProviderInfoValid data =
     (let name = (if providerType data = Some Organization then orgName data
                  else displayName data)
      in length (js_trim name) > 0 \<and>
         (length (js_trim (city data)) > 0 \<or> length (js_trim (state data)) > 0) \<and>
         length (careTypes data) > 0 \<and>
         length (js_trim (phone data)) > 0)"

text \<open>The Continue button of the step: \<open>disabled={!isValid || loading}\<close>.\<close>

definition providerInfo_continue_enabled :: "FlowData \<Rightarrow> bool \<Rightarrow> bool" where
  "providerInfo_continue_enabled data loading = (\<not> (\<not> isProviderInfoValid data \<or> loading))"

subsection \<open>Draft persistence\<close>

text \<open>The object that the save effect writes under \<open>data\<close>: sixteen fields of the flow data.\<close>

record DraftData =
  d_intent :: "UserIntent option"
  d_providerType :: "ProviderType option"
  d_orgName :: string
  d_displayName :: string
  d_city :: string
  d_state :: string
  d_zip :: string
  d_careTypes :: "string list"
  d_category :: "string option"
  d_description :: string
  d_phone :: string
  d_visibleToFamilies :: bool
  d_visibleToProviders :: bool
  d_careRecipientName :: string
  d_careRecipientRelation :: string
  d_careNeeds :: "string list"

text \<open>
  What \<open>JSON.parse\<close> makes of the stored text, as far as the restore effect reads it:
  \<open>sv_timestamp\<close> is the number that \<open>parsed.timestamp\<close> converts to (\<open>None\<close> for NaN,
  as when the property is missing), \<open>sv_data\<close> is \<open>parsed.data\<close> (\<open>None\<close> when it is
  missing, so that reading a property of it throws). \<open>Unparseable\<close> is a text on which
  \<open>JSON.parse\<close>, or the read of \<open>parsed.timestamp\<close>, throws.
\<close>

record Saved =
  sv_step :: "AuthFlowStep option"
  sv_data :: "DraftData option"
  sv_timestamp :: "int option"

datatype blob = Unparseable | Json Saved

text \<open>
  The entry of local storage under \<open>STORAGE_KEY\<close>. When local storage is unavailable
  every access throws, and each effect catches that.
\<close>

datatype localStorage = Unavailable | Store "blob option"

definition toSave_data :: "FlowData \<Rightarrow> DraftData" where
  "toSave_data fd = \<lparr> d_intent = intent fd, d_providerType = providerType fd,
     d_orgName = orgName fd, d_displayName = displayName fd, d_city = city fd,
     d_state = state fd, d_zip = zipcode fd, d_careTypes = careTypes fd,
     d_category = category fd, d_description = description fd, d_phone = phone fd,
     d_visibleToFamilies = visibleToFamilies fd,
     d_visibleToProviders = visibleToProviders fd,
     d_careRecipientName = careRecipientName fd,
     d_careRecipientRelation = careRecipientRelation fd,
     d_careNeeds = careNeeds fd \<rparr>"

text \<open>The effect that saves progress; it runs with the current time, step and data.\<close>

definition save_effect ::
  "int \<Rightarrow> bool \<Rightarrow> AuthFlowStep \<Rightarrow> FlowData \<Rightarrow> localStorage \<Rightarrow> localStorage" where
  "save_effect now isOpen stp fd ls =
     (if isOpen \<and> stp \<noteq> S_auth \<and> stp \<noteq> S_verify_code then
        (case ls of
           Unavailable \<Rightarrow> Unavailable
         | Store _ \<Rightarrow>
             Store (Some (Json \<lparr> sv_step = Some stp, sv_data = Some (toSave_data fd),
                                sv_timestamp = Some now \<rparr>)))
      else ls)"

text \<open>\<open>{ ...prev, ...parsed.data }\<close>: the fields of the draft replace those of the data.\<close>

definition merge_draft :: "FlowData \<Rightarrow> DraftData \<Rightarrow> FlowData" where
  "merge_draft prev dd = prev \<lparr> intent := d_intent dd, providerType := d_providerType dd,
     orgName := d_orgName dd, displayName := d_displayName dd, city := d_city dd,
     state := d_state dd, zipcode := d_zip dd, careTypes := d_careTypes dd,
     category := d_category dd, description := d_description dd, phone := d_phone dd,
     visibleToFamilies := d_visibleToFamilies dd,
     visibleToProviders := d_visibleToProviders dd,
     careRecipientName := d_careRecipientName dd,
     careRecipientRelation := d_careRecipientRelation dd,
     careNeeds := d_careNeeds dd \<rparr>"

text \<open>
  The effect that restores progress when the modal opens. It returns the storage and
  the data after it has run. Every exception is caught and ignored.
\<close>

definition restore_effect ::
  "int \<Rightarrow> bool \<Rightarrow> Props \<Rightarrow> localStorage \<Rightarrow> FlowData \<Rightarrow> localStorage \<times> FlowData" where
  "restore_effect now isOpen props ls fd =
     (if isOpen \<and> claimProfile props = None then
        (case ls of
           Unavailable \<Rightarrow> (ls, fd)
         | Store None \<Rightarrow> (ls, fd)
         | Store (Some Unparseable) \<Rightarrow> (ls, fd)
         | Store (Some (Json parsed)) \<Rightarrow>
             (if (case sv_timestamp parsed of None \<Rightarrow> False
                  | Some ts \<Rightarrow> now - ts < 30 * 60 * 1000) then
                (if initialIntent props = None then
                   (case sv_data parsed of None \<Rightarrow> (ls, fd)
                    | Some dd \<Rightarrow> (ls, merge_draft fd dd))
                 else
                   (case sv_data parsed of None \<Rightarrow> (ls, fd)
                    | Some dd \<Rightarrow>
                        if d_intent dd = initialIntent props then (ls, merge_draft fd dd)
                        else (ls, fd)))
              else (Store None, fd)))
      else (ls, fd))"

subsection \<open>The latch of the claim auto-completion\<close>

text \<open>
  One run of the effect that completes a claim flow for a signed-in user. It takes
  \<open>isOpen\<close>, whether \<open>claimProfile\<close> and \<open>user\<close> are set, and the value of
  \<open>claimAutoCompleteRef.current\<close>; it returns the new value of the latch and whether
  \<open>handleComplete\<close> was called.
\<close>

definition claimAutoComplete_effect :: "bool \<Rightarrow> bool \<Rightarrow> bool \<Rightarrow> bool \<Rightarrow> bool \<times> bool" where
  "claimAutoComplete_effect isOpen hasClaim hasUser latch =
     (let fired = (isOpen \<and> hasClaim \<and> hasUser \<and> \<not> latch);
          latch1 = (if fired then True else latch);
          latch2 = (if \<not> isOpen then False else latch1)
      in (latch2, fired))"

text \<open>
  A sequence of runs of the effect, each with the values of \<open>isOpen\<close>, \<open>claimProfile\<close>
  and \<open>user\<close> it sees: the number of calls of \<open>handleComplete\<close> and the final latch.
\<close>

fun run_claimAutoComplete :: "bool \<Rightarrow> (bool \<times> bool \<times> bool) list \<Rightarrow> nat \<times> bool" where
  "run_claimAutoComplete latch [] = (0, latch)"
| "run_claimAutoComplete latch ((isOpen, hasClaim, hasUser) # rs) =
     (case claimAutoComplete_effect isOpen hasClaim hasUser latch of
        (latch', fired) \<Rightarrow>
          (case run_claimAutoComplete latch' rs of
             (n, final) \<Rightarrow> ((if fired then 1 else 0) + n, final)))"

subsection \<open>State of the modal and calls to the outside\<close>

datatype AuthMode = Sign_up | Sign_in

record ModalState =
  st_step :: AuthFlowStep
  st_data :: FlowData
  st_error :: string
  st_loading :: bool
  st_authMode :: AuthMode
  st_otpCode :: string
  st_resendCooldown :: nat

text \<open>An awaited call either rejects (the handler's \<open>catch\<close> runs) or returns.\<close>

datatype 'a outcome = Throws | Returns 'a

text \<open>The object sent by the claim update: two keys always, the others when set.\<close>

record ClaimUpdate =
  u_account_id :: string
  u_claim_state :: string
  u_display_name :: "string option"
  u_city :: "string option"
  u_state :: "string option"
  u_zip :: "string option"
  u_care_types :: "string list option"
  u_description :: "string option"
  u_phone :: "string option"

datatype Metadata =
    Provider_metadata bool bool
  | Family_metadata "string option" "string option"

text \<open>The row inserted for a new profile; a key that the insert leaves out is \<open>None\<close>.\<close>

record ProfileInsert =
  i_account_id :: string
  i_slug :: string
  i_type :: string
  i_category :: "string option"
  i_display_name :: string
  i_description :: "string option"
  i_phone :: "string option"
  i_city :: "string option"
  i_state :: "string option"
  i_zip :: "string option"
  i_care_types :: "string list"
  i_claim_state :: string
  i_verification_state :: string
  i_source :: string
  i_is_active :: bool
  i_metadata :: Metadata

record AccountUpdate =
  au_onboarding_completed :: bool
  au_active_profile_id :: string
  au_display_name :: string

datatype Call =
    Auth_signUp string string "string option"
  | Auth_signInWithOtp string
  | Auth_verifyOtp string string
  | Auth_getUser
  | Api_ensure_account string
  | Profiles_update string ClaimUpdate
  | Profiles_insert ProfileInsert
  | Accounts_update string AccountUpdate
  | Memberships_upsert string
  | Storage_removeItem
  | RefreshAccountData
  | OnClose
  | Router_push string

subsection \<open>The commit\<close>

text \<open>
  Modelled from the spec: the types of the signed-in user and of the account row come
  from \<open>useAuth\<close> and \<open>lib/types\<close>, which are not among the sources; the records hold
  the properties that \<open>handleComplete\<close> reads.
\<close>

record User =
  user_email :: "string option"

record Account =
  a_id :: string
  a_display_name :: "string option"

datatype EnsureResponse =
    Ensure_rejected string
  | Ensure_not_ok "string option"
  | Ensure_ok "Account option"

text \<open>
  What the outside answers during a commit: whether the backend is configured, the user
  that \<open>getUser\<close> returns, the account of \<open>useAuth\<close>, the response of the
  ensure-account route, the error of the profile update or insert (or the id of the
  inserted row), the error of the account update, and the slug that \<open>generateSlug\<close>
  (which draws a random suffix) returns for a name, a city and a state.
\<close>

record CommitEnv =
  configured :: bool
  getUser_result :: "User option"
  account :: "Account option"
  ensure_response :: EnsureResponse
  profile_write :: "string + string"
  account_update_error :: "string option"
  generateSlug :: "string \<Rightarrow> string \<Rightarrow> string \<Rightarrow> string"

datatype CommitError =
    BackendNotConfigured
  | NotAuthenticated
  | AccountSetupFailed
  | MissingIntent
  | CommitFailed string

definition error_message :: "CommitError \<Rightarrow> string" where
  "error_message e =
     (case e of
        BackendNotConfigured \<Rightarrow> ''Backend not configured.''
      | NotAuthenticated \<Rightarrow> ''Not authenticated. Please try again.''
      | AccountSetupFailed \<Rightarrow> ''Account setup failed. Please try again.''
      | MissingIntent \<Rightarrow>
          ''Please select whether you'' @ [CHR 0x27] @
          ''re looking for care or providing care.''
      | CommitFailed m \<Rightarrow> ''Something went wrong: '' @ m)"

definition claimUpdate :: "FlowData \<Rightarrow> Profile \<Rightarrow> string \<Rightarrow> ClaimUpdate" where
  "claimUpdate fd s accountId =
     \<lparr> u_account_id = accountId,
       u_claim_state = ''pending'',
       u_display_name =
         (if \<not> truthy_trim (p_display_name s) \<and> orgName fd \<noteq> [] then Some (orgName fd)
          else None),
       u_city = (if \<not> truthy (p_city s) \<and> city fd \<noteq> [] then Some (city fd) else None),
       u_state = (if \<not> truthy (p_state s) \<and> state fd \<noteq> [] then Some (state fd) else None),
       u_zip = (if \<not> truthy (p_zip s) \<and> zipcode fd \<noteq> [] then Some (zipcode fd) else None),
       u_care_types =
         (if (p_care_types s = None \<or> p_care_types s = Some []) \<and> length (careTypes fd) > 0
          then Some (careTypes fd) else None),
       u_description =
         (if \<not> truthy_trim (p_description s) \<and> description fd \<noteq> []
          then Some (description fd) else None),
       u_phone = (if \<not> truthy (p_phone s) \<and> phone fd \<noteq> [] then Some (phone fd) else None) \<rparr>"

text \<open>The row of the table after the update: a key of the object replaces the column.\<close>

definition or_keep :: "'a option \<Rightarrow> 'a option \<Rightarrow> 'a option" where
  "or_keep new old = (case new of None \<Rightarrow> old | Some v \<Rightarrow> Some v)"

definition apply_claimUpdate :: "ClaimUpdate \<Rightarrow> Profile \<Rightarrow> Profile" where
  "apply_claimUpdate u s =
     s \<lparr> p_account_id := Some (u_account_id u),
         p_claim_state := u_claim_state u,
         p_display_name := or_keep (u_display_name u) (p_display_name s),
         p_city := or_keep (u_city u) (p_city s),
         p_state := or_keep (u_state u) (p_state s),
         p_zip := or_keep (u_zip u) (p_zip s),
         p_care_types := or_keep (u_care_types u) (p_care_types s),
         p_description := or_keep (u_description u) (p_description s),
         p_phone := or_keep (u_phone u) (p_phone s) \<rparr>"

definition new_provider_row :: "CommitEnv \<Rightarrow> FlowData \<Rightarrow> string \<Rightarrow> ProfileInsert" where
  "new_provider_row env fd accountId =
     (let profileType = (if providerType fd = Some Caregiver then ''caregiver''
                         else ''organization'');
          name = (if providerType fd = Some Organization then orgName fd
                  else displayName fd)
      in \<lparr> i_account_id = accountId,
           i_slug = generateSlug env name (city fd) (state fd),
           i_type = profileType,
           i_category = category fd,
           i_display_name = name,
           i_description = str_or_null (description fd),
           i_phone = str_or_null (phone fd),
           i_city = str_or_null (city fd),
           i_state = str_or_null (state fd),
           i_zip = str_or_null (zipcode fd),
           i_care_types = careTypes fd,
           i_claim_state = ''pending'',
           i_verification_state = ''unverified'',
           i_source = ''user_created'',
           i_is_active = True,
           i_metadata = Provider_metadata (visibleToFamilies fd) (visibleToProviders fd) \<rparr>)"

definition new_family_row :: "CommitEnv \<Rightarrow> FlowData \<Rightarrow> string \<Rightarrow> ProfileInsert" where
  "new_family_row env fd accountId =
     \<lparr> i_account_id = accountId,
       i_slug = generateSlug env (displayName fd) (city fd) (state fd),
       i_type = ''family'',
       i_category = None,
       i_display_name = displayName fd,
       i_description = None,
       i_phone = None,
       i_city = str_or_null (city fd),
       i_state = str_or_null (state fd),
       i_zip = str_or_null (zipcode fd),
       i_care_types = careNeeds fd,
       i_claim_state = ''claimed'',
       i_verification_state = ''unverified'',
       i_source = ''user_created'',
       i_is_active = True,
       i_metadata = Family_metadata (str_or_null (careRecipientName fd))
                      (str_or_null (careRecipientRelation fd)) \<rparr>"

text \<open>
  \<open>createProviderProfile\<close> and \<open>createFamilyProfile\<close>: the calls made, and the profile
  id returned or the error thrown (\<open>Inl\<close>).
\<close>

definition createProviderProfile ::
  "CommitEnv \<Rightarrow> FlowData \<Rightarrow> string \<Rightarrow> (string + string) \<times> Call list" where
  "createProviderProfile env fd accountId =
     (case (claimedProfileId fd, claimedProfile fd) of
        (Some pid, Some s) \<Rightarrow>
          if pid \<noteq> [] then
            (case profile_write env of
               Inl err \<Rightarrow> (Inl err, [Profiles_update pid (claimUpdate fd s accountId)])
             | Inr _ \<Rightarrow> (Inr pid, [Profiles_update pid (claimUpdate fd s accountId)]))
          else
            (case profile_write env of
               Inl err \<Rightarrow> (Inl err, [Profiles_insert (new_provider_row env fd accountId)])
             | Inr newId \<Rightarrow> (Inr newId, [Profiles_insert (new_provider_row env fd accountId)]))
      | _ \<Rightarrow>
          (case profile_write env of
             Inl err \<Rightarrow> (Inl err, [Profiles_insert (new_provider_row env fd accountId)])
           | Inr newId \<Rightarrow> (Inr newId, [Profiles_insert (new_provider_row env fd accountId)])))"

definition createFamilyProfile ::
  "CommitEnv \<Rightarrow> FlowData \<Rightarrow> string \<Rightarrow> (string + string) \<times> Call list" where
  "createFamilyProfile env fd accountId =
     (case profile_write env of
        Inl err \<Rightarrow> (Inl err, [Profiles_insert (new_family_row env fd accountId)])
      | Inr newId \<Rightarrow> (Inr newId, [Profiles_insert (new_family_row env fd accountId)]))"

text \<open>
  Ensuring the account: the account of \<open>useAuth\<close> when there is one, else the answer
  of the ensure-account route, called with a display name.
\<close>

definition local_part :: "string option \<Rightarrow> string" where
  "local_part e = (case e of None \<Rightarrow> [] | Some a \<Rightarrow> takeWhile (\<lambda>c. c \<noteq> CHR ''@'') a)"

definition ensure_account ::
  "CommitEnv \<Rightarrow> FlowData \<Rightarrow> User \<Rightarrow> (CommitError + Account option) \<times> Call list" where
  "ensure_account env fd currentUser =
     (case account env of
        Some acc \<Rightarrow> (Inr (Some acc), [])
      | None \<Rightarrow>
          (let name = str_or (displayName fd)
                        (str_or (orgName fd) (local_part (user_email currentUser)))
           in case ensure_response env of
                Ensure_rejected m \<Rightarrow> (Inl (CommitFailed m), [Api_ensure_account name])
              | Ensure_not_ok m \<Rightarrow>
                  (Inl (CommitFailed
                     (if truthy m then opt_str m else ''Failed to set up account'')),
                   [Api_ensure_account name])
              | Ensure_ok acc \<Rightarrow> (Inr acc, [Api_ensure_account name])))"

text \<open>
  The writes after the profile: the account update, the membership of a provider, the
  removal of the draft, the refresh, the close and the navigation.
\<close>

definition finish_commit ::
  "CommitEnv \<Rightarrow> FlowData \<Rightarrow> Account \<Rightarrow> string \<Rightarrow> (CommitError + string) \<times> Call list" where
  "finish_commit env fd accountRow profileId =
     (let upd = Accounts_update (a_id accountRow)
                  \<lparr> au_onboarding_completed = True,
                    au_active_profile_id = profileId,
                    au_display_name =
                      (if truthy (a_display_name accountRow)
                       then opt_str (a_display_name accountRow)
                       else str_or (displayName fd) (orgName fd)) \<rparr>
      in case account_update_error env of
           Some m \<Rightarrow> (Inl (CommitFailed m), [upd])
         | None \<Rightarrow>
             (Inr profileId,
              [upd] @
              (if intent fd = Some Provider then [Memberships_upsert (a_id accountRow)]
               else []) @
              [Storage_removeItem, RefreshAccountData, OnClose,
               Router_push (if intent fd = Some Family then ''/browse'' else ''/portal'')]))"

text \<open>The commit proper: its result and the calls it makes, in order.\<close>

definition commit :: "CommitEnv \<Rightarrow> FlowData \<Rightarrow> (CommitError + string) \<times> Call list" where
  "commit env fd =
     (if \<not> configured env then (Inl BackendNotConfigured, [])
      else
        (case getUser_result env of
           None \<Rightarrow> (Inl NotAuthenticated, [Auth_getUser])
         | Some currentUser \<Rightarrow>
             (case ensure_account env fd currentUser of
                (Inl e, cs1) \<Rightarrow> (Inl e, Auth_getUser # cs1)
              | (Inr None, cs1) \<Rightarrow> (Inl AccountSetupFailed, Auth_getUser # cs1)
              | (Inr (Some accountRow), cs1) \<Rightarrow>
                  (case intent fd of
                     None \<Rightarrow> (Inl MissingIntent, Auth_getUser # cs1)
                   | Some i \<Rightarrow>
                       (case (if i = Provider
                              then createProviderProfile env fd (a_id accountRow)
                              else createFamilyProfile env fd (a_id accountRow)) of
                          (Inl err, cs2) \<Rightarrow> (Inl (CommitFailed err), Auth_getUser # cs1 @ cs2)
                        | (Inr profileId, cs2) \<Rightarrow>
                            (case finish_commit env fd accountRow profileId of
                               (r, cs3) \<Rightarrow> (r, Auth_getUser # cs1 @ cs2 @ cs3)))))))"

text \<open>
  \<open>handleComplete\<close>: an error is shown with loading switched off; after a commit that
  succeeds the modal is closed and loading stays on.
\<close>

definition handleComplete :: "CommitEnv \<Rightarrow> ModalState \<Rightarrow> ModalState \<times> Call list" where
  "handleComplete env s =
     (case commit env (st_data s) of
        (Inl e, cs) \<Rightarrow> (s \<lparr> st_error := error_message e, st_loading := False \<rparr>, cs)
      | (Inr _, cs) \<Rightarrow> (s \<lparr> st_error := [], st_loading := True \<rparr>, cs))"

text \<open>The writes to the tables among the calls.\<close>

fun is_profile_write :: "Call \<Rightarrow> bool" where
  "is_profile_write (Profiles_update _ _) = True"
| "is_profile_write (Profiles_insert _) = True"
| "is_profile_write _ = False"

fun is_account_update :: "Call \<Rightarrow> bool" where
  "is_account_update (Accounts_update _ _) = True"
| "is_account_update _ = False"

fun is_membership_write :: "Call \<Rightarrow> bool" where
  "is_membership_write (Memberships_upsert _) = True"
| "is_membership_write _ = False"

subsection \<open>Authentication handlers\<close>

definition msg_not_configured :: string where
  "msg_not_configured = ''Authentication is not configured.''"

definition msg_already_registered :: string where
  "msg_already_registered = ''This email is already registered. Try signing in instead.''"

definition msg_something_wrong :: string where
  "msg_something_wrong = ''Something went wrong. Please try again.''"

definition msg_code_expired :: string where
  "msg_code_expired = ''This code has expired. Please request a new one.''"

definition msg_code_invalid :: string where
  "msg_code_invalid = ''Invalid code. Please check and try again.''"

text \<open>The answer of \<open>auth.signUp\<close>: an error, or whether there is a session and, when
  the user has a list of identities, its length.\<close>

datatype SignUpResult =
    SignUp_error string
  | SignUp_ok bool "nat option"

text \<open>
  \<open>handleSignUp\<close>. The answers of \<open>signUp\<close> and of \<open>signInWithOtp\<close> are arguments; an
  error of \<open>signInWithOtp\<close> is logged only, and the verify screen is shown all the same.
\<close>

definition handleSignUp ::
  "CommitEnv \<Rightarrow> SignUpResult outcome \<Rightarrow> string option outcome \<Rightarrow> ModalState
     \<Rightarrow> ModalState \<times> Call list" where
  "handleSignUp env signUp_result otp_result s0 =
     (let s = s0 \<lparr> st_error := [] \<rparr>; fd = st_data s0;
          displayNameForAuth = str_or (displayName fd) (orgName fd);
          signUp_call = Auth_signUp (email fd) (password fd) (str_or_null displayNameForAuth)
      in if length (password fd) < 8 then
           (s \<lparr> st_error := ''Password must be at least 8 characters.'' \<rparr>, [])
         else if \<not> configured env then
           (s \<lparr> st_error := msg_not_configured, st_loading := False \<rparr>, [])
         else
           (case signUp_result of
              Throws \<Rightarrow> (s \<lparr> st_error := msg_something_wrong, st_loading := False \<rparr>, [signUp_call])
            | Returns (SignUp_error m) \<Rightarrow>
                (s \<lparr> st_error := (if str_includes m ''already registered''
                                  then msg_already_registered else m),
                     st_loading := False \<rparr>, [signUp_call])
            | Returns (SignUp_ok has_session identities) \<Rightarrow>
                if \<not> has_session then
                  (if identities = Some 0 then
                     (s \<lparr> st_error := msg_already_registered, st_loading := False \<rparr>,
                      [signUp_call])
                   else
                     (case otp_result of
                        Throws \<Rightarrow>
                          (s \<lparr> st_error := msg_something_wrong, st_loading := False \<rparr>,
                           [signUp_call, Auth_signInWithOtp (email fd)])
                      | Returns _ \<Rightarrow>
                          (s \<lparr> st_resendCooldown := 30, st_loading := False,
                               st_step := S_verify_code \<rparr>,
                           [signUp_call, Auth_signInWithOtp (email fd)])))
                else
                  (case handleComplete env (s \<lparr> st_loading := False \<rparr>) of
                     (s', cs) \<Rightarrow> (s', signUp_call # cs))))"

text \<open>\<open>handleSendOtpForSignIn\<close>: the email-me-a-code path of sign-in.\<close>

definition handleSendOtpForSignIn ::
  "CommitEnv \<Rightarrow> string option outcome \<Rightarrow> ModalState \<Rightarrow> ModalState \<times> Call list" where
  "handleSendOtpForSignIn env otp_result s0 =
     (let fd = st_data s0 in
      if js_trim (email fd) = [] then
        (s0 \<lparr> st_error := ''Please enter your email address first.'' \<rparr>, [])
      else if \<not> configured env then
        (s0 \<lparr> st_error := msg_not_configured, st_loading := False \<rparr>, [])
      else
        (case otp_result of
           Throws \<Rightarrow>
             (s0 \<lparr> st_error := ''Failed to send code. Please try again.'',
                   st_loading := False \<rparr>, [Auth_signInWithOtp (email fd)])
         | Returns (Some m) \<Rightarrow>
             (s0 \<lparr> st_error :=
                     (if str_includes m ''not found'' \<or> str_includes m ''not registered''
                      then ''No account found with this email. Please sign up first.''
                      else m),
                   st_loading := False \<rparr>, [Auth_signInWithOtp (email fd)])
         | Returns None \<Rightarrow>
             (s0 \<lparr> st_error := [], st_resendCooldown := 30, st_loading := False,
                   st_step := S_verify_code \<rparr>, [Auth_signInWithOtp (email fd)])))"

text \<open>\<open>handleResendCode\<close>: nothing at all happens while the cooldown is positive.\<close>

definition handleResendCode ::
  "CommitEnv \<Rightarrow> string option outcome \<Rightarrow> ModalState \<Rightarrow> ModalState \<times> Call list" where
  "handleResendCode env otp_result s0 =
     (if st_resendCooldown s0 > 0 then (s0, [])
      else if \<not> configured env then
        (s0 \<lparr> st_error := msg_not_configured, st_loading := False \<rparr>, [])
      else
        (case otp_result of
           Throws \<Rightarrow>
             (s0 \<lparr> st_error := ''Failed to resend code. Please try again.'',
                   st_loading := False \<rparr>, [Auth_signInWithOtp (email (st_data s0))])
         | Returns (Some m) \<Rightarrow>
             (s0 \<lparr> st_error := m, st_loading := False \<rparr>,
              [Auth_signInWithOtp (email (st_data s0))])
         | Returns None \<Rightarrow>
             (s0 \<lparr> st_error := [], st_resendCooldown := 60, st_otpCode := [],
                   st_loading := False \<rparr>, [Auth_signInWithOtp (email (st_data s0))])))"

text \<open>The timer of the cooldown: one second less, once a second, while it is positive.\<close>

definition cooldown_tick :: "ModalState \<Rightarrow> ModalState" where
  "cooldown_tick s =
     (if st_resendCooldown s > 0 then s \<lparr> st_resendCooldown := st_resendCooldown s - 1 \<rparr>
      else s)"

text \<open>The message shown for an error of \<open>verifyOtp\<close>.\<close>

definition verify_error_text :: "string \<Rightarrow> string" where
  "verify_error_text m =
     (if str_includes m ''expired'' then msg_code_expired
      else if str_includes m ''invalid'' then msg_code_invalid
      else m)"

text \<open>
  \<open>handleVerifyOtp\<close>. The answer of \<open>verifyOtp\<close> is an argument: it rejects, returns an
  error with a message, or returns none.
\<close>

definition handleVerifyOtp ::
  "CommitEnv \<Rightarrow> string option outcome \<Rightarrow> ModalState \<Rightarrow> ModalState \<times> Call list" where
  "handleVerifyOtp env verify_result s0 =
     (let verify_call = Auth_verifyOtp (email (st_data s0)) (st_otpCode s0) in
      if length (st_otpCode s0) \<noteq> 8 then
        (s0 \<lparr> st_error := ''Please enter the 8-digit code.'' \<rparr>, [])
      else if \<not> configured env then
        (s0 \<lparr> st_error := msg_not_configured, st_loading := False \<rparr>, [])
      else
        (case verify_result of
           Throws \<Rightarrow> (s0 \<lparr> st_error := msg_something_wrong, st_loading := False \<rparr>, [verify_call])
         | Returns (Some m) \<Rightarrow>
             (s0 \<lparr> st_error := verify_error_text m, st_loading := False \<rparr>, [verify_call])
         | Returns None \<Rightarrow>
             (case handleComplete env (s0 \<lparr> st_error := [], st_loading := True \<rparr>) of
                (s', cs) \<Rightarrow> (s', verify_call # cs))))"

subsection \<open>Emptiness of a column, and example inputs\<close>

text \<open>
  A nullable text column is empty when it is null or the empty string, and blank when
  it is null or holds white space only; a nullable list column is empty when it is null
  or the empty list.
\<close>

definition empty_text :: "string option \<Rightarrow> bool" where
  "empty_text v = (v = None \<or> v = Some [])"

definition blank_text :: "string option \<Rightarrow> bool" where
  "blank_text v = (case v of None \<Rightarrow> True | Some d \<Rightarrow> \<forall>c\<in>set d. js_whitespace c)"

definition empty_list :: "'a list option \<Rightarrow> bool" where
  "empty_list v = (v = None \<or> v = Some [])"

text \<open>A listing in Austin, and a flow that claims it with the city Dallas.\<close>

definition ex_target :: Profile where
  "ex_target = \<lparr> p_id = ''p1'', p_account_id = None, p_claim_state = ''unclaimed'',
     p_display_name = Some ''Sunrise'', p_city = Some ''Austin'', p_state = None,
     p_zip = None, p_care_types = None, p_category = None, p_description = None,
     p_phone = None \<rparr>"

definition ex_claim_data :: FlowData where
  "ex_claim_data = INITIAL_DATA \<lparr> intent := Some Provider, providerType := Some Organization,
     orgName := ''Sunrise'', city := ''Dallas'', state := ''TX'', description := ''Good care'',
     claimedProfileId := Some ''p1'', claimedProfile := Some ex_target \<rparr>"

text \<open>A configured backend with nobody signed in.\<close>

definition ex_env :: CommitEnv where
  "ex_env = \<lparr> configured = True, getUser_result = None, account = None,
     ensure_response = Ensure_ok None, profile_write = Inr ''p2'',
     account_update_error = None, generateSlug = (\<lambda>n c s. n) \<rparr>"

text \<open>The provider-info step of an organization, filled in.\<close>

definition ex_provider_info :: FlowData where
  "ex_provider_info = INITIAL_DATA \<lparr> providerType := Some Organization,
     orgName := ''Sunrise'', city := ''Austin'', careTypes := [''Home Care''],
     phone := ''555'' \<rparr>"

text \<open>A backend with a signed-in user who has an account row.\<close>

definition ex_env_signed_in :: CommitEnv where
  "ex_env_signed_in = ex_env \<lparr> getUser_result := Some \<lparr> user_email = Some ''jane@example.com'' \<rparr>,
     account := Some \<lparr> a_id = ''a1'', a_display_name = None \<rparr> \<rparr>"

text \<open>A family flow, its saved draft written at time 0, and two ways to open the modal.\<close>

definition ex_family_data :: FlowData where
  "ex_family_data = INITIAL_DATA \<lparr> intent := Some Family, displayName := ''Jane Doe'',
     city := ''Austin'', state := ''TX'', careNeeds := [''Home Care''] \<rparr>"

definition ex_family_draft :: Saved where
  "ex_family_draft = \<lparr> sv_step = Some S_family_needs,
     sv_data = Some (toSave_data ex_family_data), sv_timestamp = Some 0 \<rparr>"

definition ex_props_plain :: Props where
  "ex_props_plain = \<lparr> initialIntent = None, initialProviderType = None,
     claimProfile = None, defaultToSignIn = False \<rparr>"


text \<open>The verify-code step with a code of eight characters typed in.\<close>

definition ex_verify_state :: ModalState where
  "ex_verify_state = \<lparr> st_step = S_verify_code,
     st_data = ex_family_data \<lparr> email := ''jane@example.com'', password := ''correct horse'' \<rparr>,
     st_error = [], st_loading = False, st_authMode = Sign_up,
     st_otpCode = ''12345678'', st_resendCooldown = 12 \<rparr>"

text \<open>The auth step of the same flow, before any code was sent.\<close>

definition ex_auth_state :: ModalState where
  "ex_auth_state = ex_verify_state \<lparr> st_step := S_auth, st_otpCode := [],
     st_resendCooldown := 0 \<rparr>"

text \<open>A listing whose description is a single space, and a flow that names a category.\<close>

definition ex_blank_target :: Profile where
  "ex_blank_target = ex_target \<lparr> p_description := Some '' '' \<rparr>"

definition ex_category_data :: FlowData where
  "ex_category_data = ex_claim_data \<lparr> category := Some ''memory_care'',
     claimedProfile := Some ex_blank_target \<rparr>"

subsection \<open>Opening the modal\<close>

text \<open>
  When the modal opens, the effects run in the order of their declaration: the save
  effect first, then the restore effect. Both see the step and the data of the opening
  render, which are the initial step and the initial data (set when the component
  mounts, and again by the reset effect whenever the modal closes). Each effect reads
  the clock itself. The result is the storage and the data after both have run.
\<close>

definition open_flow :: "int \<Rightarrow> int \<Rightarrow> Props \<Rightarrow> localStorage \<Rightarrow> localStorage \<times> FlowData" where
  "open_flow t_save t_restore props ls =
     restore_effect t_restore True props
       (save_effect t_save True (getInitialStep props) (initialData props) ls)
       (initialData props)"

text \<open>The draft that the save effect writes for the initial data at time \<open>t\<close>.\<close>

definition initial_draft :: "int \<Rightarrow> Props \<Rightarrow> Saved" where
  "initial_draft t props = \<lparr> sv_step = Some (getInitialStep props),
     sv_data = Some (toSave_data (initialData props)), sv_timestamp = Some t \<rparr>"

text \<open>
  A stored text is expired or malformed at a time when it does not parse, or its
  timestamp is not a number, or its timestamp lies 30 minutes or more in the past.
\<close>

definition expired_or_malformed :: "int \<Rightarrow> blob \<Rightarrow> bool" where
  "expired_or_malformed now b =
     (case b of
        Unparseable \<Rightarrow> True
      | Json parsed \<Rightarrow>
          (case sv_timestamp parsed of None \<Rightarrow> True
           | Some ts \<Rightarrow> 30 * 60 * 1000 \<le> now - ts))"

section \<open>Properties\<close>

subsection \<open>Strings\<close>

lemma dropWhile_all_iff: "(\<forall>x\<in>set (dropWhile P xs). P x) \<longleftrightarrow> (\<forall>x\<in>set xs. P x)"
  by (induction xs) auto

lemma js_trim_empty_iff: "js_trim s = [] \<longleftrightarrow> (\<forall>c\<in>set s. js_whitespace c)"
proof -
  have "js_trim s = [] \<longleftrightarrow> (\<forall>c\<in>set (rev (dropWhile js_whitespace s)). js_whitespace c)"
    by (simp add: js_trim_def)
  also have "\<dots> \<longleftrightarrow> (\<forall>c\<in>set (dropWhile js_whitespace s). js_whitespace c)"
    by simp
  also have "\<dots> \<longleftrightarrow> (\<forall>c\<in>set s. js_whitespace c)"
    by (rule dropWhile_all_iff)
  finally show ?thesis .
qed

lemma js_trim_nonempty_iff: "js_trim s \<noteq> [] \<longleftrightarrow> (\<exists>c\<in>set s. \<not> js_whitespace c)"
  by (simp add: js_trim_empty_iff)

subsection \<open>Step configuration\<close>

lemma totalSteps_value:
  "totalSteps (getStepConfig step data isAuthenticated) =
     (if intent data = Some Provider then
        (if providerType data = Some Organization then 3 else 2)
      else 2) + (if isAuthenticated then 0 else 1)"
  by (simp add: getStepConfig_def Let_def)

lemma totalSteps_step_independent:
  "totalSteps (getStepConfig step data isAuthenticated) =
   totalSteps (getStepConfig step' data isAuthenticated)"
  by (simp add: totalSteps_value)

lemma stepNumber_le_totalSteps_unauthenticated:
  "stepNumber (getStepConfig step data False) \<le> totalSteps (getStepConfig step data False)"
  by (cases step) (simp_all add: getStepConfig_def Let_def provider_stepMap_def
      family_stepMap_def or_one_def)

lemma totals_as_specified:
  "totalSteps (getStepConfig stp (fd \<lparr> intent := Some Provider, providerType := Some Organization \<rparr>) a)
     = 3 + (if a then 0 else 1)"
  "totalSteps (getStepConfig stp (fd \<lparr> intent := Some Provider, providerType := Some Caregiver \<rparr>) a)
     = 2 + (if a then 0 else 1)"
  "totalSteps (getStepConfig stp (fd \<lparr> intent := Some Family \<rparr>) a) = 2 + (if a then 0 else 1)"
  by (simp_all add: totalSteps_value)

lemma stepNumber_le_totalSteps_iff:
  "stepNumber (getStepConfig stp fd a) \<le> totalSteps (getStepConfig stp fd a) \<longleftrightarrow>
     \<not> (a \<and> (stp = S_auth \<or> stp = S_verify_code \<or>
              (stp = S_org_search \<and> intent fd = Some Provider \<and>
               providerType fd \<noteq> Some Organization)))"
  by (cases stp; cases a) (simp_all add: getStepConfig_def Let_def provider_stepMap_def
      family_stepMap_def or_one_def)

text \<open>
  C3. The totals of the progress function are as the claim gives them, and the step
  number stays within the total at every step of an unauthenticated flow. A flow that
  is opened with a listing to claim starts on the step \<open>auth\<close> with the data of an
  organization; when the user is signed in already (the state the auto-completion
  effect acts on), the progress line is rendered for that first state, with step
  number 4 and a total of 3 steps: the step number exceeds the total.
\<close>

theorem C3_claim_flow_authenticated_step_exceeds_total:
  "getInitialStep (props \<lparr> claimProfile := Some cp \<rparr>) = S_auth \<and>
   showProgress (getInitialStep (props \<lparr> claimProfile := Some cp \<rparr>))
       (initialData (props \<lparr> claimProfile := Some cp \<rparr>)) \<and>
   stepNumber (getStepConfig (getInitialStep (props \<lparr> claimProfile := Some cp \<rparr>))
       (initialData (props \<lparr> claimProfile := Some cp \<rparr>)) True) = 4 \<and>
   totalSteps (getStepConfig (getInitialStep (props \<lparr> claimProfile := Some cp \<rparr>))
       (initialData (props \<lparr> claimProfile := Some cp \<rparr>)) True) = 3"
  by (simp add: getInitialStep_def initialData_def getStepConfig_def Let_def
      provider_stepMap_def or_one_def INITIAL_DATA_def showProgress_def)

text \<open>
  C10. The Continue button of the provider-info step is enabled only when the name that
  applies (the organization name for an organization, the display name otherwise) has a
  character that is not white space, the city or the state has one, at least one care
  type is selected, and the phone number has one.
\<close>

theorem C10_providerInfo_continue_requires_fields:
  "providerInfo_continue_enabled data loading \<Longrightarrow>
     (\<exists>c \<in> set (if providerType data = Some Organization then orgName data
                 else displayName data). \<not> js_whitespace c) \<and>
     ((\<exists>c \<in> set (city data). \<not> js_whitespace c) \<or>
      (\<exists>c \<in> set (state data). \<not> js_whitespace c)) \<and>
     careTypes data \<noteq> [] \<and>
     (\<exists>c \<in> set (phone data). \<not> js_whitespace c)"
  unfolding providerInfo_continue_enabled_def isProviderInfoValid_def Let_def
  by (simp only: length_greater_0_conv js_trim_nonempty_iff) blast

theorem C10_providerInfo_continue_witness:
  "providerInfo_continue_enabled ex_provider_info False \<and>
   (\<exists>c \<in> set (orgName ex_provider_info). \<not> js_whitespace c) \<and>
   careTypes ex_provider_info \<noteq> [] \<and>
   (\<exists>c \<in> set (phone ex_provider_info). \<not> js_whitespace c)"
proof -
  have h: "providerInfo_continue_enabled ex_provider_info False"
    by (simp add: ex_provider_info_def providerInfo_continue_enabled_def
        isProviderInfoValid_def INITIAL_DATA_def js_trim_def js_whitespace_def)
  have o: "providerType ex_provider_info = Some Organization"
    by (simp add: ex_provider_info_def INITIAL_DATA_def)
  from C10_providerInfo_continue_requires_fields [OF h] o h show ?thesis by simp
qed

subsection \<open>Claim merge\<close>

lemma or_keep_simps: "or_keep None old = old" "or_keep (Some v) old = Some v"
  by (simp_all add: or_keep_def)

lemma truthy_iff: "truthy v \<longleftrightarrow> \<not> empty_text v"
  by (cases v) (simp_all add: truthy_def empty_text_def)

lemma truthy_trim_iff: "truthy_trim v \<longleftrightarrow> \<not> blank_text v"
  by (cases v) (simp_all add: truthy_trim_def blank_text_def js_trim_nonempty_iff)

lemma claim_branch:
  assumes "claimedProfileId fd = Some pid" and "pid \<noteq> []" and "claimedProfile fd = Some s"
  shows "snd (createProviderProfile env fd acc) = [Profiles_update pid (claimUpdate fd s acc)]"
  using assms by (simp add: createProviderProfile_def split: sum.splits)

lemma claimUpdate_always:
  "u_account_id (claimUpdate fd s acc) = acc"
  "u_claim_state (claimUpdate fd s acc) = ''pending''"
  by (simp_all add: claimUpdate_def)

lemma ensure_account_no_writes:
  "c \<in> set (snd (ensure_account env fd u)) \<Longrightarrow>
     \<not> is_profile_write c \<and> \<not> is_account_update c \<and> \<not> is_membership_write c"
  by (auto simp add: ensure_account_def Let_def split: option.splits EnsureResponse.splits)

lemma finish_commit_no_profile_writes:
  "c \<in> set (snd (finish_commit env fd a pid)) \<Longrightarrow> \<not> is_profile_write c"
  by (auto simp add: finish_commit_def Let_def split: option.splits if_splits)

lemma commit_calls_provider:
  assumes "intent fd = Some Provider" and "c \<in> set (snd (commit env fd))"
  shows "c = Auth_getUser \<or> (\<exists>u. c \<in> set (snd (ensure_account env fd u))) \<or>
     (\<exists>acc. c \<in> set (snd (createProviderProfile env fd acc))) \<or>
     (\<exists>a pid. c \<in> set (snd (finish_commit env fd a pid)))"
proof (cases "configured env")
  case False
  with assms(2) show ?thesis by (simp add: commit_def)
next
  case True
  show ?thesis
  proof (cases "getUser_result env")
    case None
    with True assms(2) show ?thesis by (simp add: commit_def)
  next
    case (Some u)
    obtain r cs1 where e: "ensure_account env fd u = (r, cs1)" by (cases "ensure_account env fd u")
    show ?thesis
    proof (cases r)
      case (Inl err)
      with True Some e assms(2) have "c = Auth_getUser \<or> c \<in> set (snd (ensure_account env fd u))"
        by (auto simp add: commit_def)
      then show ?thesis by blast
    next
      case (Inr ao)
      show ?thesis
      proof (cases ao)
        case None
        with Inr True Some e assms(2)
        have "c = Auth_getUser \<or> c \<in> set (snd (ensure_account env fd u))"
          by (auto simp add: commit_def)
        then show ?thesis by blast
      next
        case (Some a)
        obtain r2 cs2 where p: "createProviderProfile env fd (a_id a) = (r2, cs2)"
          by (cases "createProviderProfile env fd (a_id a)")
        show ?thesis
        proof (cases r2)
          case (Inl err)
          with Some Inr True \<open>getUser_result env = Some u\<close> e p assms
          have "c = Auth_getUser \<or> c \<in> set (snd (ensure_account env fd u)) \<or>
                c \<in> set (snd (createProviderProfile env fd (a_id a)))"
            by (auto simp add: commit_def)
          then show ?thesis by blast
        next
          case (Inr pid)
          obtain r3 cs3 where f: "finish_commit env fd a pid = (r3, cs3)"
            by (cases "finish_commit env fd a pid")
          with Some Inr \<open>r = Inr ao\<close> True \<open>getUser_result env = Some u\<close> e p assms
          have "c = Auth_getUser \<or> c \<in> set (snd (ensure_account env fd u)) \<or>
                c \<in> set (snd (createProviderProfile env fd (a_id a))) \<or>
                c \<in> set (snd (finish_commit env fd a pid))"
            by (auto simp add: commit_def)
          then show ?thesis by blast
        qed
      qed
    qed
  qed
qed

lemma commit_claim_profile_writes:
  assumes "intent fd = Some Provider" and "claimedProfileId fd = Some pid" and "pid \<noteq> []"
    and "claimedProfile fd = Some s" and "c \<in> set (snd (commit env fd))"
    and "is_profile_write c"
  shows "\<exists>acc. c = Profiles_update pid (claimUpdate fd s acc)"
  using commit_calls_provider [OF assms(1) assms(5)] assms(6)
    ensure_account_no_writes [of c env fd] finish_commit_no_profile_writes [of c env fd]
    claim_branch [OF assms(2-4), of env]
  by auto

lemma commit_claim_only_merge_update:
  assumes "claimedProfileId fd = Some pid" and "pid \<noteq> []" and "claimedProfile fd = Some s"
  shows "intent fd = Some Provider \<longrightarrow>
     (\<forall>c \<in> set (snd (commit env fd)).
        is_profile_write c \<longrightarrow> (\<exists>a. c = Profiles_update pid (claimUpdate fd s a)))"
  using commit_claim_profile_writes [OF _ assms] by blast

lemma claimUpdate_keys:
  "u_display_name (claimUpdate fd s acc) =
     (if blank_text (p_display_name s) \<and> orgName fd \<noteq> [] then Some (orgName fd) else None)"
  "u_city (claimUpdate fd s acc) =
     (if empty_text (p_city s) \<and> city fd \<noteq> [] then Some (city fd) else None)"
  "u_state (claimUpdate fd s acc) =
     (if empty_text (p_state s) \<and> state fd \<noteq> [] then Some (state fd) else None)"
  "u_zip (claimUpdate fd s acc) =
     (if empty_text (p_zip s) \<and> zipcode fd \<noteq> [] then Some (zipcode fd) else None)"
  "u_care_types (claimUpdate fd s acc) =
     (if empty_list (p_care_types s) \<and> careTypes fd \<noteq> [] then Some (careTypes fd) else None)"
  "u_description (claimUpdate fd s acc) =
     (if blank_text (p_description s) \<and> description fd \<noteq> [] then Some (description fd)
      else None)"
  "u_phone (claimUpdate fd s acc) =
     (if empty_text (p_phone s) \<and> phone fd \<noteq> [] then Some (phone fd) else None)"
  by (simp_all add: claimUpdate_def truthy_iff truthy_trim_iff empty_list_def)

lemma claimed_row:
  "p_display_name (apply_claimUpdate (claimUpdate fd s acc) s) =
     (if blank_text (p_display_name s) \<and> orgName fd \<noteq> [] then Some (orgName fd)
      else p_display_name s)"
  "p_city (apply_claimUpdate (claimUpdate fd s acc) s) =
     (if empty_text (p_city s) \<and> city fd \<noteq> [] then Some (city fd) else p_city s)"
  "p_state (apply_claimUpdate (claimUpdate fd s acc) s) =
     (if empty_text (p_state s) \<and> state fd \<noteq> [] then Some (state fd) else p_state s)"
  "p_zip (apply_claimUpdate (claimUpdate fd s acc) s) =
     (if empty_text (p_zip s) \<and> zipcode fd \<noteq> [] then Some (zipcode fd) else p_zip s)"
  "p_care_types (apply_claimUpdate (claimUpdate fd s acc) s) =
     (if empty_list (p_care_types s) \<and> careTypes fd \<noteq> [] then Some (careTypes fd)
      else p_care_types s)"
  "p_description (apply_claimUpdate (claimUpdate fd s acc) s) =
     (if blank_text (p_description s) \<and> description fd \<noteq> [] then Some (description fd)
      else p_description s)"
  "p_phone (apply_claimUpdate (claimUpdate fd s acc) s) =
     (if empty_text (p_phone s) \<and> phone fd \<noteq> [] then Some (phone fd) else p_phone s)"
  "p_category (apply_claimUpdate (claimUpdate fd s acc) s) = p_category s"
  "p_id (apply_claimUpdate (claimUpdate fd s acc) s) = p_id s"
  "p_account_id (apply_claimUpdate (claimUpdate fd s acc) s) = Some acc"
  "p_claim_state (apply_claimUpdate (claimUpdate fd s acc) s) = ''pending''"
  by (simp_all add: apply_claimUpdate_def claimUpdate_keys or_keep_simps claimUpdate_always)

lemma createProviderProfile_claim:
  assumes "claimedProfileId fd = Some pid" and "pid \<noteq> []" and "claimedProfile fd = Some s"
  shows "createProviderProfile env fd acc =
     (case profile_write env of Inl err \<Rightarrow> Inl err | Inr x \<Rightarrow> Inr pid,
      [Profiles_update pid (claimUpdate fd s acc)])"
  using assms by (simp add: createProviderProfile_def split: sum.splits)

lemma ensure_account_no_profile_writes:
  "filter is_profile_write (snd (ensure_account env fd u)) = []"
  by (simp add: ensure_account_def Let_def split: option.splits EnsureResponse.splits)

lemma finish_commit_filter_profile_writes:
  "filter is_profile_write (snd (finish_commit env fd a pid)) = []"
  by (simp add: finish_commit_def Let_def split: option.splits)

lemma commit_claim_exactly_one_update:
  assumes "claimedProfileId fd = Some pid" and "pid \<noteq> []" and "claimedProfile fd = Some s"
  shows "intent fd = Some Provider \<and> configured env \<and> getUser_result env = Some usr \<and>
         fst (ensure_account env fd usr) = Inr (Some a) \<longrightarrow>
     filter is_profile_write (snd (commit env fd)) =
       [Profiles_update pid (claimUpdate fd s (a_id a))]"
proof (intro impI, elim conjE)
  assume i: "intent fd = Some Provider" and c: "configured env"
    and u: "getUser_result env = Some usr"
    and e: "fst (ensure_account env fd usr) = Inr (Some a)"
  obtain cs1 where e': "ensure_account env fd usr = (Inr (Some a), cs1)"
    using e by (cases "ensure_account env fd usr") simp
  have f1: "filter is_profile_write cs1 = []"
    using ensure_account_no_profile_writes [of env fd usr] e' by simp
  note p = createProviderProfile_claim [OF assms, of env "a_id a"]
  show "filter is_profile_write (snd (commit env fd)) =
       [Profiles_update pid (claimUpdate fd s (a_id a))]"
  proof (cases "profile_write env")
    case (Inl err)
    with i c u e' p f1 show ?thesis by (simp add: commit_def)
  next
    case (Inr x)
    obtain r3 cs3 where f: "finish_commit env fd a pid = (r3, cs3)"
      by (cases "finish_commit env fd a pid")
    then have f3: "filter is_profile_write cs3 = []"
      using finish_commit_filter_profile_writes [of env fd a pid] by simp
    from Inr i c u e' p f f1 f3 show ?thesis by (simp add: commit_def)
  qed
qed

text \<open>
  C1 (as amended). When the flow data carry a claim target (a non-empty id and the
  snapshot of the listing), \<open>createProviderProfile\<close> makes exactly one call, the update
  of that listing, and returns the listing's id unless the update fails. The update
  always sets the account id and the claim state "pending". It writes city, state, zip,
  care types and phone exactly when the listing's value is empty and the flow's value is
  not; it writes display name and description exactly when the listing's value is blank
  (null or white space only) and the flow's value is not empty; what it writes is the
  flow's value; it never writes the category. The row after the update is given column
  by column: a column is the flow's value when it was written and the listing's value
  otherwise. In a commit of such a provider flow every write to the profiles is that
  update, never an insert, and once the backend is configured, a user is resolved and
  an account row is ensured, the writes to the profiles are exactly that one update.
\<close>

theorem C1_claim_merge_exact:
  assumes "claimedProfileId fd = Some pid" and "pid \<noteq> []" and "claimedProfile fd = Some s"
  shows "(createProviderProfile env fd acc =
       (case profile_write env of Inl err \<Rightarrow> Inl err | Inr x \<Rightarrow> Inr pid,
        [Profiles_update pid (claimUpdate fd s acc)])) \<and>
    u_account_id (claimUpdate fd s acc) = acc \<and>
    u_claim_state (claimUpdate fd s acc) = ''pending'' \<and>
    u_display_name (claimUpdate fd s acc) =
      (if blank_text (p_display_name s) \<and> orgName fd \<noteq> []
       then Some (orgName fd) else None) \<and>
    u_city (claimUpdate fd s acc) =
      (if empty_text (p_city s) \<and> city fd \<noteq> []
       then Some (city fd) else None) \<and>
    u_state (claimUpdate fd s acc) =
      (if empty_text (p_state s) \<and> state fd \<noteq> []
       then Some (state fd) else None) \<and>
    u_zip (claimUpdate fd s acc) =
      (if empty_text (p_zip s) \<and> zipcode fd \<noteq> []
       then Some (zipcode fd) else None) \<and>
    u_care_types (claimUpdate fd s acc) =
      (if empty_list (p_care_types s) \<and> careTypes fd \<noteq> []
       then Some (careTypes fd) else None) \<and>
    u_description (claimUpdate fd s acc) = (if blank_text (p_description s) \<and>
    description fd \<noteq> [] then Some (description fd) else None) \<and>
    u_phone (claimUpdate fd s acc) =
      (if empty_text (p_phone s) \<and> phone fd \<noteq> []
       then Some (phone fd) else None) \<and>
    p_display_name (apply_claimUpdate (claimUpdate fd s acc) s) =
      (if blank_text (p_display_name s) \<and> orgName fd \<noteq> []
       then Some (orgName fd) else p_display_name s) \<and>
    p_city (apply_claimUpdate (claimUpdate fd s acc) s) = (if empty_text (p_city s) \<and>
    city fd \<noteq> [] then Some (city fd) else p_city s) \<and>
    p_state (apply_claimUpdate (claimUpdate fd s acc) s) = (if empty_text (p_state s) \<and>
    state fd \<noteq> [] then Some (state fd) else p_state s) \<and>
    p_zip (apply_claimUpdate (claimUpdate fd s acc) s) = (if empty_text (p_zip s) \<and>
    zipcode fd \<noteq> [] then Some (zipcode fd) else p_zip s) \<and>
    p_care_types (apply_claimUpdate (claimUpdate fd s acc) s) =
      (if empty_list (p_care_types s) \<and> careTypes fd \<noteq> []
       then Some (careTypes fd) else p_care_types s) \<and>
    p_description (apply_claimUpdate (claimUpdate fd s acc) s) =
      (if blank_text (p_description s) \<and> description fd \<noteq> []
       then Some (description fd) else p_description s) \<and>
    p_phone (apply_claimUpdate (claimUpdate fd s acc) s) = (if empty_text (p_phone s) \<and>
    phone fd \<noteq> [] then Some (phone fd) else p_phone s) \<and>
    p_category (apply_claimUpdate (claimUpdate fd s acc) s) = p_category s \<and>
    p_id (apply_claimUpdate (claimUpdate fd s acc) s) = p_id s \<and>
    p_account_id (apply_claimUpdate (claimUpdate fd s acc) s) = Some acc \<and>
    p_claim_state (apply_claimUpdate (claimUpdate fd s acc) s) = ''pending'' \<and>
    (intent fd = Some Provider \<longrightarrow>
       (\<forall>c \<in> set (snd (commit env fd)).
          is_profile_write c \<longrightarrow> (\<exists>a. c = Profiles_update pid (claimUpdate fd s a)))) \<and>
    (intent fd = Some Provider \<and> configured env \<and> getUser_result env = Some usr \<and>
    fst (ensure_account env fd usr) = Inr (Some a) \<longrightarrow> filter is_profile_write (snd (commit env fd)) = [Profiles_update pid (claimUpdate fd s (a_id a))])"
  by (intro conjI createProviderProfile_claim [OF assms] claimUpdate_always claimUpdate_keys
      claimed_row commit_claim_only_merge_update [OF assms]
      commit_claim_exactly_one_update [OF assms])

theorem C1_claim_merge_austin_witness:
  "claimedProfileId ex_claim_data = Some ''p1'' \<and> ''p1'' \<noteq> [] \<and>
   claimedProfile ex_claim_data = Some ex_target \<and>
   city ex_claim_data = ''Dallas'' \<and> p_city ex_target = Some ''Austin'' \<and>
   p_city (apply_claimUpdate (claimUpdate ex_claim_data ex_target ''acc'') ex_target)
     = Some ''Austin'' \<and>
   state ex_claim_data = ''TX'' \<and> p_state ex_target = None \<and>
   p_state (apply_claimUpdate (claimUpdate ex_claim_data ex_target ''acc'') ex_target)
     = Some ''TX'' \<and>
   createProviderProfile ex_env ex_claim_data ''acc'' =
     (Inr ''p1'', [Profiles_update ''p1'' (claimUpdate ex_claim_data ex_target ''acc'')])"
proof -
  have h1: "claimedProfileId ex_claim_data = Some ''p1''"
    and h3: "claimedProfile ex_claim_data = Some ex_target"
    and h4: "city ex_claim_data = ''Dallas''" and h7: "state ex_claim_data = ''TX''"
    by (simp_all add: ex_claim_data_def INITIAL_DATA_def)
  have h2: "''p1'' \<noteq> []" by simp
  have h5: "\<not> empty_text (p_city ex_target)" and h6: "p_city ex_target = Some ''Austin''"
    and h8: "empty_text (p_state ex_target)" and h9: "p_state ex_target = None"
    by (simp_all add: ex_target_def empty_text_def)
  have w: "profile_write ex_env = Inr ''p2''" by (simp add: ex_env_def)
  note t = C1_claim_merge_exact [OF h1 h2 h3, of ex_env "''acc''"]
  from t have "createProviderProfile ex_env ex_claim_data ''acc'' =
       (case profile_write ex_env of Inl err \<Rightarrow> Inl err | Inr x \<Rightarrow> Inr ''p1'',
        [Profiles_update ''p1'' (claimUpdate ex_claim_data ex_target ''acc'')])"
    by (rule conjunct1)
  with w have a: "createProviderProfile ex_env ex_claim_data ''acc'' =
     (Inr ''p1'', [Profiles_update ''p1'' (claimUpdate ex_claim_data ex_target ''acc'')])"
    by simp
  from t have "p_city (apply_claimUpdate (claimUpdate ex_claim_data ex_target ''acc'') ex_target) =
     (if empty_text (p_city ex_target) \<and> city ex_claim_data \<noteq> [] then Some (city ex_claim_data)
      else p_city ex_target)" by blast
  with h5 h6 have b: "p_city (apply_claimUpdate (claimUpdate ex_claim_data ex_target ''acc'')
      ex_target) = Some ''Austin''" by simp
  from t have "p_state (apply_claimUpdate (claimUpdate ex_claim_data ex_target ''acc'') ex_target) =
     (if empty_text (p_state ex_target) \<and> state ex_claim_data \<noteq> [] then Some (state ex_claim_data)
      else p_state ex_target)" by blast
  with h7 h8 have c: "p_state (apply_claimUpdate (claimUpdate ex_claim_data ex_target ''acc'')
      ex_target) = Some ''TX''" by simp
  from h1 h2 h3 h4 h6 h7 h9 a b c show ?thesis by blast
qed

text \<open>
  The claim as stated, that a target field that is not empty is never overwritten,
  fails for a description that holds a single space: the update replaces it by the
  flow's description. The category of the flow is not written even when the listing
  has none.
\<close>

theorem C1_blank_description_overwritten_counterexample:
  "claimedProfileId ex_category_data = Some ''p1'' \<and>
   claimedProfile ex_category_data = Some ex_blank_target \<and>
   p_description ex_blank_target = Some '' '' \<and>
   p_description ex_blank_target \<noteq> Some [] \<and>
   description ex_category_data = ''Good care'' \<and>
   p_description (apply_claimUpdate (claimUpdate ex_category_data ex_blank_target ''acc'')
     ex_blank_target) = Some ''Good care'' \<and>
   p_category ex_blank_target = None \<and>
   category ex_category_data = Some ''memory_care'' \<and>
   p_category (apply_claimUpdate (claimUpdate ex_category_data ex_blank_target ''acc'')
     ex_blank_target) = None"
  by (simp add: ex_category_data_def ex_claim_data_def ex_blank_target_def ex_target_def
      INITIAL_DATA_def claimUpdate_def apply_claimUpdate_def or_keep_def truthy_def
      truthy_trim_def js_trim_def js_whitespace_def)

subsection \<open>Commit without an intent\<close>

lemma commit_null_intent:
  assumes "intent fd = None"
  shows "commit env fd =
     (if \<not> configured env then (Inl BackendNotConfigured, [])
      else case getUser_result env of
        None \<Rightarrow> (Inl NotAuthenticated, [Auth_getUser])
      | Some u \<Rightarrow>
          (case fst (ensure_account env fd u) of
             Inl e \<Rightarrow> (Inl e, Auth_getUser # snd (ensure_account env fd u))
           | Inr None \<Rightarrow> (Inl AccountSetupFailed, Auth_getUser # snd (ensure_account env fd u))
           | Inr (Some a) \<Rightarrow> (Inl MissingIntent, Auth_getUser # snd (ensure_account env fd u))))"
  using assms by (simp add: commit_def split: option.splits sum.splits prod.splits)

lemma commit_null_intent_fails:
  assumes "intent fd = None"
  shows "\<exists>e. fst (commit env fd) = Inl e"
  by (simp add: commit_null_intent [OF assms] split: option.splits sum.splits)

lemma commit_null_intent_no_writes:
  assumes "intent fd = None" and "c \<in> set (snd (commit env fd))"
  shows "\<not> is_profile_write c \<and> \<not> is_account_update c \<and> \<not> is_membership_write c"
  using assms(2) ensure_account_no_writes [of c env fd]
  by (auto simp add: commit_null_intent [OF assms(1)] split: option.splits sum.splits if_splits)

lemma commit_null_intent_missing:
  assumes "intent fd = None" and "configured env" and "getUser_result env \<noteq> None"
    and "account env \<noteq> None \<or> (\<exists>a. ensure_response env = Ensure_ok (Some a))"
  shows "fst (commit env fd) = Inl MissingIntent"
  using assms(2-4)
  by (auto simp add: commit_null_intent [OF assms(1)] ensure_account_def Let_def
      split: option.splits sum.splits)

lemma error_message_nonempty: "error_message e \<noteq> []"
  by (cases e) (simp_all add: error_message_def)

lemma handleComplete_failure:
  assumes "fst (commit env (st_data s)) = Inl e"
  shows "fst (handleComplete env s) = s \<lparr> st_error := error_message e, st_loading := False \<rparr>"
    and "snd (handleComplete env s) = snd (commit env (st_data s))"
  using assms by (cases "commit env (st_data s)"; simp add: handleComplete_def)+

text \<open>
  C2. A commit with no intent in the flow data always fails with a typed error whose
  message is shown, with loading switched off and nothing else of the state changed; it
  writes no profile, updates no account and writes no membership. The commit resolves
  the user and ensures the account before it branches on the intent; whenever it
  reaches that branch (the backend is configured, a user is signed in and an account
  row is at hand, from \<open>useAuth\<close> or from the ensure-account route) the error is
  \<open>MissingIntent\<close>.
\<close>

theorem C2_null_intent_commit_fails:
  assumes "intent (st_data s) = None"
  shows "(\<exists>e. fst (commit env (st_data s)) = Inl e \<and>
            fst (handleComplete env s) = s \<lparr> st_error := error_message e, st_loading := False \<rparr> \<and>
            error_message e \<noteq> []) \<and>
         (\<forall>c \<in> set (snd (handleComplete env s)).
            \<not> is_profile_write c \<and> \<not> is_account_update c \<and> \<not> is_membership_write c) \<and>
         (configured env \<and> getUser_result env \<noteq> None \<and>
            (account env \<noteq> None \<or> (\<exists>a. ensure_response env = Ensure_ok (Some a)))
          \<longrightarrow> fst (commit env (st_data s)) = Inl MissingIntent)"
proof -
  obtain e where e: "fst (commit env (st_data s)) = Inl e"
    using commit_null_intent_fails [OF assms] by blast
  have 1: "\<exists>e. fst (commit env (st_data s)) = Inl e \<and>
            fst (handleComplete env s) = s \<lparr> st_error := error_message e, st_loading := False \<rparr> \<and>
            error_message e \<noteq> []"
    using e handleComplete_failure(1) [OF e] error_message_nonempty by blast
  have 2: "\<forall>c \<in> set (snd (handleComplete env s)).
            \<not> is_profile_write c \<and> \<not> is_account_update c \<and> \<not> is_membership_write c"
    using commit_null_intent_no_writes [OF assms] handleComplete_failure(2) [OF e] by simp
  have 3: "configured env \<and> getUser_result env \<noteq> None \<and>
            (account env \<noteq> None \<or> (\<exists>a. ensure_response env = Ensure_ok (Some a)))
          \<longrightarrow> fst (commit env (st_data s)) = Inl MissingIntent"
    using commit_null_intent_missing [OF assms] by blast
  from 1 2 3 show ?thesis by (intro conjI)
qed

theorem C2_null_intent_witness:
  "intent (st_data (ex_auth_state \<lparr> st_data := INITIAL_DATA \<rparr>)) = None \<and>
   configured ex_env_signed_in \<and> getUser_result ex_env_signed_in \<noteq> None \<and>
   account ex_env_signed_in \<noteq> None \<and>
   fst (commit ex_env_signed_in (st_data (ex_auth_state \<lparr> st_data := INITIAL_DATA \<rparr>)))
     = Inl MissingIntent"
proof -
  have h: "intent (st_data (ex_auth_state \<lparr> st_data := INITIAL_DATA \<rparr>)) = None"
    by (simp add: INITIAL_DATA_def)
  have c: "configured ex_env_signed_in" "getUser_result ex_env_signed_in \<noteq> None"
    "account ex_env_signed_in \<noteq> None"
    by (simp_all add: ex_env_signed_in_def ex_env_def)
  from C2_null_intent_commit_fails [OF h, of ex_env_signed_in] c
  have "fst (commit ex_env_signed_in (st_data (ex_auth_state \<lparr> st_data := INITIAL_DATA \<rparr>)))
     = Inl MissingIntent" by blast
  with h c show ?thesis by blast
qed

subsection \<open>The latch\<close>

lemma run_claimAutoComplete_latched:
  "\<forall>r \<in> set rs. fst r \<Longrightarrow> run_claimAutoComplete True rs = (0, True)"
  by (induction rs) (auto simp add: claimAutoComplete_effect_def)

lemma run_claimAutoComplete_at_most_once:
  "\<forall>r \<in> set rs. fst r \<Longrightarrow> fst (run_claimAutoComplete latch rs) \<le> 1"
proof (induction rs arbitrary: latch)
  case Nil
  then show ?case by simp
next
  case (Cons r rs)
  obtain isOpen hasClaim hasUser where r: "r = (isOpen, hasClaim, hasUser)"
    by (cases r) auto
  from Cons.prems r have o: "isOpen" and rest: "\<forall>r \<in> set rs. fst r" by auto
  show ?case
  proof (cases "hasClaim \<and> hasUser \<and> \<not> latch")
    case True
    then have "claimAutoComplete_effect isOpen hasClaim hasUser latch = (True, True)"
      using o by (simp add: claimAutoComplete_effect_def)
    then show ?thesis
      using run_claimAutoComplete_latched [OF rest] r by simp
  next
    case False
    then have "claimAutoComplete_effect isOpen hasClaim hasUser latch = (latch, False)"
      using o by (auto simp add: claimAutoComplete_effect_def)
    then show ?thesis
      using Cons.IH [OF rest, of latch] r by (simp split: prod.splits)
  qed
qed

text \<open>
  C4. In any sequence of runs of the auto-completion effect during which the modal stays
  open, \<open>handleComplete\<close> is called at most once, and not at all once the latch is
  set. A run that calls \<open>handleComplete\<close> leaves the latch set, and a run resets a set
  latch only when the modal is closed.
\<close>

theorem C4_auto_commit_at_most_once_while_open:
  "(\<forall>r \<in> set rs. fst r) \<longrightarrow>
     fst (run_claimAutoComplete latch rs) \<le> 1 \<and>
     (latch \<longrightarrow> fst (run_claimAutoComplete latch rs) = 0) \<and>
     (snd (claimAutoComplete_effect isOpen hasClaim hasUser latch) \<longrightarrow>
        isOpen \<and> fst (claimAutoComplete_effect isOpen hasClaim hasUser latch)) \<and>
     (latch \<and> \<not> fst (claimAutoComplete_effect isOpen hasClaim hasUser latch) \<longrightarrow> \<not> isOpen)"
proof (intro impI conjI)
  assume a: "\<forall>r \<in> set rs. fst r"
  show "fst (run_claimAutoComplete latch rs) \<le> 1"
    using run_claimAutoComplete_at_most_once [OF a] .
  show "fst (run_claimAutoComplete latch rs) = 0" if "latch"
    using run_claimAutoComplete_latched [OF a] that by simp
  show "isOpen" if "snd (claimAutoComplete_effect isOpen hasClaim hasUser latch)"
    using that by (simp add: claimAutoComplete_effect_def Let_def)
  show "fst (claimAutoComplete_effect isOpen hasClaim hasUser latch)"
    if "snd (claimAutoComplete_effect isOpen hasClaim hasUser latch)"
    using that by (simp add: claimAutoComplete_effect_def Let_def)
  show "\<not> isOpen" if "latch \<and> \<not> fst (claimAutoComplete_effect isOpen hasClaim hasUser latch)"
    using that by (auto simp add: claimAutoComplete_effect_def Let_def split: if_splits)
qed

theorem C4_auto_commit_witness:
  "fst (run_claimAutoComplete False
     [(True, True, True), (True, True, True), (True, True, False), (True, True, True)]) = 1"
proof -
  have a: "\<forall>r \<in> set [(True, True, True), (True, True, True), (True, True, False), (True, True, True)]. fst r"
    by simp
  have b: "1 \<le> fst (run_claimAutoComplete False
     [(True, True, True), (True, True, True), (True, True, False), (True, True, True)])"
    by (simp add: claimAutoComplete_effect_def)
  from C4_auto_commit_at_most_once_while_open
    [of "[(True, True, True), (True, True, True), (True, True, False), (True, True, True)]" False] a
  have "fst (run_claimAutoComplete False
     [(True, True, True), (True, True, True), (True, True, False), (True, True, True)]) \<le> 1"
    by blast
  with b show ?thesis by simp
qed

subsection \<open>Verification of the code\<close>

lemma handleVerifyOtp_error:
  assumes "length (st_otpCode s) = 8" and "configured env"
  shows "handleVerifyOtp env (Returns (Some m)) s =
     (s \<lparr> st_error := verify_error_text m, st_loading := False \<rparr>,
      [Auth_verifyOtp (email (st_data s)) (st_otpCode s)])"
  using assms by (simp add: handleVerifyOtp_def Let_def)

lemma verify_error_text_cases:
  "str_includes m ''expired'' \<longrightarrow> verify_error_text m = msg_code_expired"
  "\<not> str_includes m ''expired'' \<and> str_includes m ''invalid'' \<longrightarrow>
     verify_error_text m = msg_code_invalid"
  "msg_code_invalid \<noteq> msg_code_expired"
  by (simp_all add: verify_error_text_def msg_code_invalid_def msg_code_expired_def)

lemma handleVerifyOtp_failure_frame:
  assumes "vr \<noteq> Returns None"
  shows "\<exists>e l. fst (handleVerifyOtp env vr s) = s \<lparr> st_error := e, st_loading := l \<rparr>"
proof (cases "length (st_otpCode s) \<noteq> 8")
  case True
  then have "fst (handleVerifyOtp env vr s) =
      s \<lparr> st_error := ''Please enter the 8-digit code.'', st_loading := st_loading s \<rparr>"
    by (simp add: handleVerifyOtp_def Let_def)
  then show ?thesis by blast
next
  case False
  show ?thesis
  proof (cases "configured env")
    case False
    with \<open>\<not> length (st_otpCode s) \<noteq> 8\<close>
    have "fst (handleVerifyOtp env vr s) = s \<lparr> st_error := msg_not_configured, st_loading := False \<rparr>"
      by (simp add: handleVerifyOtp_def Let_def)
    then show ?thesis by blast
  next
    case True
    show ?thesis
    proof (cases vr)
      case Throws
      with True \<open>\<not> length (st_otpCode s) \<noteq> 8\<close>
      have "fst (handleVerifyOtp env vr s) = s \<lparr> st_error := msg_something_wrong, st_loading := False \<rparr>"
        by (simp add: handleVerifyOtp_def Let_def)
      then show ?thesis by blast
    next
      case (Returns r)
      with assms obtain m where "r = Some m" by (cases r) auto
      with Returns True \<open>\<not> length (st_otpCode s) \<noteq> 8\<close>
      have "fst (handleVerifyOtp env vr s) = s \<lparr> st_error := verify_error_text m, st_loading := False \<rparr>"
        by (simp add: handleVerifyOtp_def Let_def)
      then show ?thesis by blast
    qed
  qed
qed

lemma handleVerifyOtp_failure_keeps:
  assumes "vr \<noteq> Returns None"
  shows "st_step (fst (handleVerifyOtp env vr s)) = st_step s \<and>
         st_data (fst (handleVerifyOtp env vr s)) = st_data s \<and>
         st_otpCode (fst (handleVerifyOtp env vr s)) = st_otpCode s \<and>
         st_authMode (fst (handleVerifyOtp env vr s)) = st_authMode s \<and>
         st_resendCooldown (fst (handleVerifyOtp env vr s)) = st_resendCooldown s"
proof -
  from handleVerifyOtp_failure_frame [OF assms, of env s] obtain e l
    where "fst (handleVerifyOtp env vr s) = s \<lparr> st_error := e, st_loading := l \<rparr>" by blast
  then show ?thesis by simp
qed

lemma handleVerifyOtp_error_message:
  assumes "length (st_otpCode s) = 8" and "configured env"
  shows "st_error (fst (handleVerifyOtp env (Returns (Some m)) s)) = verify_error_text m"
  using assms by (simp add: handleVerifyOtp_def Let_def)

text \<open>
  C5 (as amended). A submission of a code that does not end in a successful
  verification changes the error message and the loading flag and nothing else: the
  step, the flow data, the code field, the mode and the cooldown keep their values, so
  the flow stays on the verify-code step and the code field is not cleared. When the
  gateway rejects a code of eight characters, the message shown is the one for an
  expired code when the gateway's message contains "expired", the one for an invalid
  code when it contains "invalid" and not "expired"; the two messages differ.
\<close>

theorem C5_rejected_code_keeps_code_and_flow:
  "(vr \<noteq> Returns None \<longrightarrow>
      st_step (fst (handleVerifyOtp env vr s)) = st_step s \<and>
      st_data (fst (handleVerifyOtp env vr s)) = st_data s \<and>
      st_otpCode (fst (handleVerifyOtp env vr s)) = st_otpCode s \<and>
      st_authMode (fst (handleVerifyOtp env vr s)) = st_authMode s \<and>
      st_resendCooldown (fst (handleVerifyOtp env vr s)) = st_resendCooldown s) \<and>
   (length (st_otpCode s) = 8 \<and> configured env \<longrightarrow>
      handleVerifyOtp env (Returns (Some m)) s =
        (s \<lparr> st_error := verify_error_text m, st_loading := False \<rparr>,
         [Auth_verifyOtp (email (st_data s)) (st_otpCode s)])) \<and>
   (str_includes m ''expired'' \<longrightarrow> verify_error_text m = msg_code_expired) \<and>
   (\<not> str_includes m ''expired'' \<and> str_includes m ''invalid'' \<longrightarrow>
      verify_error_text m = msg_code_invalid) \<and>
   msg_code_invalid \<noteq> msg_code_expired"
  using handleVerifyOtp_failure_keeps [of vr env s] handleVerifyOtp_error [of s env m]
    verify_error_text_cases(1,2) [of m] verify_error_text_cases(3)
  by blast

theorem C5_rejected_code_witness:
  "length (st_otpCode ex_verify_state) = 8 \<and> configured ex_env \<and>
   st_step (fst (handleVerifyOtp ex_env (Returns (Some ''Token is invalid'')) ex_verify_state))
     = S_verify_code \<and>
   st_error (fst (handleVerifyOtp ex_env (Returns (Some ''Token is invalid'')) ex_verify_state))
     = msg_code_invalid"
proof -
  have h1: "length (st_otpCode ex_verify_state) = 8" and h3: "st_step ex_verify_state = S_verify_code"
    by (simp_all add: ex_verify_state_def)
  have h2: "configured ex_env" by (simp add: ex_env_def)
  have i: "\<not> str_includes ''Token is invalid'' ''expired'' \<and> str_includes ''Token is invalid'' ''invalid''"
    by simp
  have n: "Returns (Some ''Token is invalid'') \<noteq> Returns None" by simp
  note t = C5_rejected_code_keeps_code_and_flow [where vr = "Returns (Some ''Token is invalid'')"
      and env = ex_env and s = ex_verify_state and m = "''Token is invalid''"]
  from t n h3 have a: "st_step (fst (handleVerifyOtp ex_env (Returns (Some ''Token is invalid''))
      ex_verify_state)) = S_verify_code" by simp
  from t i have v: "verify_error_text ''Token is invalid'' = msg_code_invalid" by blast
  from t h1 h2 have "handleVerifyOtp ex_env (Returns (Some ''Token is invalid'')) ex_verify_state =
        (ex_verify_state \<lparr> st_error := verify_error_text ''Token is invalid'', st_loading := False \<rparr>,
         [Auth_verifyOtp (email (st_data ex_verify_state)) (st_otpCode ex_verify_state)])"
    by blast
  with v have b: "st_error (fst (handleVerifyOtp ex_env (Returns (Some ''Token is invalid''))
      ex_verify_state)) = msg_code_invalid" by simp
  from h1 h2 a b show ?thesis by blast
qed

text \<open>
  The claim as stated, that the code field is cleared, fails: after the gateway answers
  "Token is invalid" the field still holds the code that was submitted.
\<close>

theorem C5_code_not_cleared_counterexample:
  "st_step ex_verify_state = S_verify_code \<and>
   st_otpCode (fst (handleVerifyOtp ex_env (Returns (Some ''Token is invalid'')) ex_verify_state))
     = ''12345678'' \<and>
   st_otpCode (fst (handleVerifyOtp ex_env (Returns (Some ''Token is invalid'')) ex_verify_state))
     \<noteq> []"
  by (simp add: handleVerifyOtp_def Let_def ex_verify_state_def ex_env_def)

subsection \<open>Restoring a draft\<close>

lemma restore_effect_no_draft: "restore_effect now isOpen props (Store None) fd = (Store None, fd)"
  by (simp add: restore_effect_def)

lemma restore_effect_unparseable:
  "restore_effect now isOpen props (Store (Some Unparseable)) fd = (Store (Some Unparseable), fd)"
  by (simp add: restore_effect_def)

lemma merge_draft_toSave_data: "merge_draft fd (toSave_data fd) = fd"
  by (simp add: merge_draft_def toSave_data_def)

lemma getInitialStep_no_claim:
  "claimProfile props = None \<Longrightarrow>
     getInitialStep props \<noteq> S_auth \<and> getInitialStep props \<noteq> S_verify_code"
  by (simp add: getInitialStep_def)

lemma initialData_intent_no_claim:
  "claimProfile props = None \<Longrightarrow> intent (initialData props) = initialIntent props"
  by (simp add: initialData_def INITIAL_DATA_def)

lemma save_effect_on_open:
  assumes "claimProfile props = None"
  shows "save_effect t_save True (getInitialStep props) (initialData props) (Store x) =
     Store (Some (Json (initial_draft t_save props)))"
  using getInitialStep_no_claim [OF assms] by (simp add: save_effect_def initial_draft_def)

lemma restore_effect_initial_draft:
  assumes "claimProfile props = None" and "t_restore - t_save < 30 * 60 * 1000"
  shows "restore_effect t_restore True props (Store (Some (Json (initial_draft t_save props))))
      (initialData props) =
     (Store (Some (Json (initial_draft t_save props))), initialData props)"
proof -
  have "d_intent (toSave_data (initialData props)) = initialIntent props"
    using initialData_intent_no_claim [OF assms(1)] by (simp add: toSave_data_def)
  then show ?thesis
    using assms by (simp add: restore_effect_def initial_draft_def merge_draft_toSave_data)
qed

lemma open_flow_overwrites_stored_draft:
  assumes "claimProfile props = None" and "t_restore - t_save < 30 * 60 * 1000"
  shows "open_flow t_save t_restore props (Store x) =
     (Store (Some (Json (initial_draft t_save props))), initialData props)"
  unfolding open_flow_def save_effect_on_open [OF assms(1)]
  by (rule restore_effect_initial_draft [OF assms])

lemma expired_not_initial_draft:
  assumes "t_restore - t_save < 30 * 60 * 1000" and "expired_or_malformed t_restore b"
  shows "b \<noteq> Json (initial_draft t_save props)"
  using assms by (auto simp add: expired_or_malformed_def initial_draft_def)

lemma restore_effect_expired_or_malformed:
  assumes "claimProfile props = None" and "expired_or_malformed now b"
  shows "restore_effect now True props (Store (Some b)) fd =
     (if b = Unparseable then Store (Some b) else Store None, fd)"
  using assms
  by (cases b) (auto simp add: restore_effect_def expired_or_malformed_def split: option.splits)


lemma restore_effect_idempotent_on_discard:
  assumes "claimProfile props = None" and "expired_or_malformed now b"
  shows "restore_effect now True props
           (fst (restore_effect now True props (Store (Some b)) fd))
           (snd (restore_effect now True props (Store (Some b)) fd)) =
         restore_effect now True props (Store (Some b)) fd"
  by (simp add: restore_effect_expired_or_malformed [OF assms] restore_effect_no_draft
      restore_effect_unparseable)

text \<open>
  C6. Take an open of a flow without a claim target (with one, the draft is not read at
  all), and a stored text that is expired or malformed when the restore effect reads
  the clock. After the open the flow data are the initial data, and storage and data
  are exactly what they are after an open with nothing stored: the stored text has no
  influence and is no longer stored (the save effect, which runs first, has written the
  draft of the initial data in its place). Opening again on the resulting storage gives
  the same result. The restore effect by itself, run on such a text, leaves the data
  unchanged, removes an entry that parses (an unparseable one is left) and, run again
  on its own result, changes nothing.
\<close>

theorem C6_expired_draft_discarded:
  assumes "claimProfile props = None" and "t_restore - t_save < 30 * 60 * 1000"
    and "expired_or_malformed t_restore b"
  shows "snd (open_flow t_save t_restore props (Store (Some b))) = initialData props \<and>
         open_flow t_save t_restore props (Store (Some b)) =
           open_flow t_save t_restore props (Store None) \<and>
         fst (open_flow t_save t_restore props (Store (Some b))) =
           Store (Some (Json (initial_draft t_save props))) \<and>
         fst (open_flow t_save t_restore props (Store (Some b))) \<noteq> Store (Some b) \<and>
         open_flow t_save t_restore props
             (fst (open_flow t_save t_restore props (Store (Some b)))) =
           open_flow t_save t_restore props (Store (Some b)) \<and>
         restore_effect t_restore True props (Store (Some b)) fd =
           (if b = Unparseable then Store (Some b) else Store None, fd) \<and>
         restore_effect t_restore True props
             (fst (restore_effect t_restore True props (Store (Some b)) fd))
             (snd (restore_effect t_restore True props (Store (Some b)) fd)) =
           restore_effect t_restore True props (Store (Some b)) fd"
proof (intro conjI)
  note o = open_flow_overwrites_stored_draft [OF assms(1,2)]
  show "snd (open_flow t_save t_restore props (Store (Some b))) = initialData props"
    by (simp add: o)
  show "open_flow t_save t_restore props (Store (Some b)) =
          open_flow t_save t_restore props (Store None)"
    by (simp add: o)
  show "fst (open_flow t_save t_restore props (Store (Some b))) =
           Store (Some (Json (initial_draft t_save props)))"
    by (simp add: o)
  show "fst (open_flow t_save t_restore props (Store (Some b))) \<noteq> Store (Some b)"
    using expired_not_initial_draft [OF assms(2,3), of props] by (auto simp add: o)
  show "open_flow t_save t_restore props
             (fst (open_flow t_save t_restore props (Store (Some b)))) =
           open_flow t_save t_restore props (Store (Some b))"
    by (simp add: o)
  show "restore_effect t_restore True props (Store (Some b)) fd =
           (if b = Unparseable then Store (Some b) else Store None, fd)"
    by (rule restore_effect_expired_or_malformed [OF assms(1,3)])
  show "restore_effect t_restore True props
             (fst (restore_effect t_restore True props (Store (Some b)) fd))
             (snd (restore_effect t_restore True props (Store (Some b)) fd)) =
           restore_effect t_restore True props (Store (Some b)) fd"
    by (rule restore_effect_idempotent_on_discard [OF assms(1,3)])
qed

theorem C6_expired_draft_witness:
  "claimProfile ex_props_plain = None \<and> (2000001 - 2000000 :: int) < 30 * 60 * 1000 \<and>
   expired_or_malformed 2000001 (Json ex_family_draft) \<and>
   snd (open_flow 2000000 2000001 ex_props_plain (Store (Some (Json ex_family_draft))))
     = initialData ex_props_plain \<and>
   fst (open_flow 2000000 2000001 ex_props_plain (Store (Some (Json ex_family_draft))))
     \<noteq> Store (Some (Json ex_family_draft)) \<and>
   restore_effect 2000001 True ex_props_plain (Store (Some (Json ex_family_draft))) INITIAL_DATA
     = (Store None, INITIAL_DATA)"
proof -
  have c: "claimProfile ex_props_plain = None" by (simp add: ex_props_plain_def)
  have a: "(2000001 - 2000000 :: int) < 30 * 60 * 1000" by simp
  have e: "expired_or_malformed 2000001 (Json ex_family_draft)"
    by (simp add: expired_or_malformed_def ex_family_draft_def)
  note r = C6_expired_draft_discarded [OF c a e, of INITIAL_DATA]
  from r have r1: "snd (open_flow 2000000 2000001 ex_props_plain
      (Store (Some (Json ex_family_draft)))) = initialData ex_props_plain"
    by (rule conjunct1)
  from r have r2: "fst (open_flow 2000000 2000001 ex_props_plain
      (Store (Some (Json ex_family_draft)))) \<noteq> Store (Some (Json ex_family_draft))"
    by blast
  from r have "restore_effect 2000001 True ex_props_plain
      (Store (Some (Json ex_family_draft))) INITIAL_DATA =
      (if Json ex_family_draft = Unparseable then Store (Some (Json ex_family_draft))
       else Store None, INITIAL_DATA)" by blast
  then have r3: "restore_effect 2000001 True ex_props_plain
      (Store (Some (Json ex_family_draft))) INITIAL_DATA = (Store None, INITIAL_DATA)"
    by simp
  from c a e r1 r2 r3 show ?thesis by blast
qed





subsection \<open>Saving a draft\<close>

lemma toSave_data_ignores_secrets:
  "toSave_data (fd \<lparr> email := e, password := pw, claimedProfileId := cid, claimedProfile := cp \<rparr>)
     = toSave_data fd"
  by (simp add: toSave_data_def)

text \<open>
  C8. The saved draft has no field for the email, the password or the claim linkage, and
  the save effect gives the same storage for two flow data that differ in those four
  fields only. On the steps \<open>auth\<close> and \<open>verify-code\<close> the save effect leaves the
  storage as it is.
\<close>

theorem C8_draft_excludes_secrets_and_auth_steps:
  "save_effect now isOpen stp
     (fd \<lparr> email := e, password := pw, claimedProfileId := cid, claimedProfile := cp \<rparr>) ls
     = save_effect now isOpen stp fd ls \<and>
   save_effect now isOpen S_auth fd ls = ls \<and>
   save_effect now isOpen S_verify_code fd ls = ls"
  unfolding save_effect_def toSave_data_ignores_secrets by simp

theorem C8_draft_excludes_secrets_witness:
  "save_effect 5 True S_family_needs (ex_family_data \<lparr> email := ''jane@example.com'',
       password := ''correct horse'', claimedProfileId := Some ''p1'',
       claimedProfile := Some ex_target \<rparr>) (Store None)
     = Store (Some (Json \<lparr> sv_step = Some S_family_needs,
         sv_data = Some (toSave_data ex_family_data), sv_timestamp = Some 5 \<rparr>))"
proof -
  have "save_effect 5 True S_family_needs ex_family_data (Store None)
      = Store (Some (Json \<lparr> sv_step = Some S_family_needs,
         sv_data = Some (toSave_data ex_family_data), sv_timestamp = Some 5 \<rparr>))"
    by (simp add: save_effect_def)
  with C8_draft_excludes_secrets_and_auth_steps [where now = 5 and isOpen = True
      and stp = S_family_needs and fd = ex_family_data and e = "''jane@example.com''"
      and pw = "''correct horse''" and cid = "Some ''p1''" and cp = "Some ex_target"
      and ls = "Store None"]
  show ?thesis by simp
qed

subsection \<open>The resend cooldown\<close>

lemma handleSignUp_needs_verification:
  assumes "8 \<le> length (password (st_data s))" and "configured env" and "identities \<noteq> Some 0"
  shows "fst (handleSignUp env (Returns (SignUp_ok False identities)) (Returns r) s) =
     s \<lparr> st_error := [], st_resendCooldown := 30, st_loading := False,
         st_step := S_verify_code \<rparr>"
  using assms by (simp add: handleSignUp_def Let_def)

lemma handleSendOtpForSignIn_sent:
  assumes "js_trim (email (st_data s)) \<noteq> []" and "configured env"
  shows "fst (handleSendOtpForSignIn env (Returns None) s) =
     s \<lparr> st_error := [], st_resendCooldown := 30, st_loading := False,
         st_step := S_verify_code \<rparr>"
  using assms by (simp add: handleSendOtpForSignIn_def Let_def)

lemma handleResendCode_sent:
  assumes "st_resendCooldown s = 0" and "configured env"
  shows "handleResendCode env (Returns None) s =
     (s \<lparr> st_error := [], st_resendCooldown := 60, st_otpCode := [], st_loading := False \<rparr>,
      [Auth_signInWithOtp (email (st_data s))])"
  using assms by (simp add: handleResendCode_def)

lemma handleResendCode_cooling:
  assumes "0 < st_resendCooldown s"
  shows "handleResendCode env r s = (s, [])"
  using assms by (simp add: handleResendCode_def)

lemma cooldown_ticks:
  "(cooldown_tick ^^ n) s = s \<lparr> st_resendCooldown := st_resendCooldown s - n \<rparr>"
proof (induction n)
  case 0
  show ?case by simp
next
  case (Suc n)
  then show ?case by (simp add: cooldown_tick_def)
qed

lemma resend_blocked_during_cooldown:
  assumes "n < st_resendCooldown s"
  shows "handleResendCode env res ((cooldown_tick ^^ n) s) = ((cooldown_tick ^^ n) s, [])"
  using assms by (simp add: cooldown_ticks handleResendCode_def)

lemma resend_allowed_after_cooldown:
  assumes "st_resendCooldown s \<le> n" and "configured env"
  shows "handleResendCode env (Returns None) ((cooldown_tick ^^ n) s) =
     (s \<lparr> st_error := [], st_resendCooldown := 60, st_otpCode := [], st_loading := False \<rparr>,
      [Auth_signInWithOtp (email (st_data s))])"
  using assms by (simp add: cooldown_ticks handleResendCode_def)

text \<open>
  C9. A sign-up that needs verification, and the email-me-a-code path of sign-in, move to
  the verify-code step with a cooldown of 30; a resend that the gateway accepts sets the
  cooldown to 60. The timer takes one off the cooldown each second while it is positive,
  so after \<open>n\<close> seconds a cooldown \<open>c\<close> stands at \<open>c - n\<close> and nothing else has changed.
  While fewer seconds have passed than the cooldown was set to, a resend request returns
  at once, with the state unchanged and no call to the gateway; once that many seconds
  have passed, a resend request calls the gateway and, when accepted, starts a cooldown
  of 60.
\<close>

theorem C9_resend_cooldown:
  "(8 \<le> length (password (st_data s)) \<and> configured env \<and> identities \<noteq> Some 0 \<longrightarrow>
      st_step (fst (handleSignUp env (Returns (SignUp_ok False identities)) (Returns r) s))
        = S_verify_code \<and>
      st_resendCooldown (fst (handleSignUp env (Returns (SignUp_ok False identities)) (Returns r) s))
        = 30) \<and>
   (js_trim (email (st_data s)) \<noteq> [] \<and> configured env \<longrightarrow>
      st_step (fst (handleSendOtpForSignIn env (Returns None) s)) = S_verify_code \<and>
      st_resendCooldown (fst (handleSendOtpForSignIn env (Returns None) s)) = 30) \<and>
   (st_resendCooldown s = 0 \<and> configured env \<longrightarrow>
      st_resendCooldown (fst (handleResendCode env (Returns None) s)) = 60 \<and>
      snd (handleResendCode env (Returns None) s) = [Auth_signInWithOtp (email (st_data s))]) \<and>
   (0 < st_resendCooldown s \<longrightarrow> handleResendCode env res s = (s, [])) \<and>
   (cooldown_tick ^^ n) s = s \<lparr> st_resendCooldown := st_resendCooldown s - n \<rparr> \<and>
   (n < st_resendCooldown s \<longrightarrow>
      handleResendCode env res ((cooldown_tick ^^ n) s) = ((cooldown_tick ^^ n) s, [])) \<and>
   (st_resendCooldown s \<le> n \<and> configured env \<longrightarrow>
      handleResendCode env (Returns None) ((cooldown_tick ^^ n) s) =
        (s \<lparr> st_error := [], st_resendCooldown := 60, st_otpCode := [], st_loading := False \<rparr>,
         [Auth_signInWithOtp (email (st_data s))]))"
  using handleSignUp_needs_verification [of s env identities r]
    handleSendOtpForSignIn_sent [of s env] handleResendCode_sent [of s env]
    handleResendCode_cooling [of s env res] cooldown_ticks [of n s]
    resend_blocked_during_cooldown [of n s env res] resend_allowed_after_cooldown [of s n env]
  by simp

theorem C9_resend_cooldown_witness:
  "8 \<le> length (password (st_data ex_auth_state)) \<and> configured ex_env \<and>
   st_resendCooldown (fst (handleSignUp ex_env (Returns (SignUp_ok False None)) (Returns None)
       ex_auth_state)) = 30 \<and>
   snd (handleResendCode ex_env (Returns None) ((cooldown_tick ^^ 29)
       (fst (handleSignUp ex_env (Returns (SignUp_ok False None)) (Returns None) ex_auth_state))))
     = [] \<and>
   snd (handleResendCode ex_env (Returns None) ((cooldown_tick ^^ 30)
       (fst (handleSignUp ex_env (Returns (SignUp_ok False None)) (Returns None) ex_auth_state))))
     = [Auth_signInWithOtp ''jane@example.com'']"
proof -
  let ?s1 = "fst (handleSignUp ex_env (Returns (SignUp_ok False None)) (Returns None) ex_auth_state)"
  have h1: "8 \<le> length (password (st_data ex_auth_state))"
    by (simp add: ex_auth_state_def ex_verify_state_def)
  have h2: "configured ex_env" by (simp add: ex_env_def)
  have h3: "(None :: nat option) \<noteq> Some 0" by simp
  from C9_resend_cooldown [where s = ex_auth_state and env = ex_env and identities = None
      and r = None] h1 h2 h3
  have a: "st_resendCooldown ?s1 = 30" by blast
  have e: "email (st_data ?s1) = ''jane@example.com''"
    using h1 h2 by (simp add: handleSignUp_needs_verification ex_auth_state_def
        ex_verify_state_def)
  from a have lt: "29 < st_resendCooldown ?s1" and le: "st_resendCooldown ?s1 \<le> 30" by simp_all
  from C9_resend_cooldown [where s = ?s1 and env = ex_env and n = 29 and res = "Returns None"]
  have "29 < st_resendCooldown ?s1 \<longrightarrow>
      handleResendCode ex_env (Returns None) ((cooldown_tick ^^ 29) ?s1) =
        ((cooldown_tick ^^ 29) ?s1, [])" by blast
  with lt have "handleResendCode ex_env (Returns None) ((cooldown_tick ^^ 29) ?s1) =
        ((cooldown_tick ^^ 29) ?s1, [])" by blast
  then have b: "snd (handleResendCode ex_env (Returns None) ((cooldown_tick ^^ 29) ?s1)) = []"
    by (simp only: snd_conv)
  from C9_resend_cooldown [where s = ?s1 and env = ex_env and n = 30]
  have "st_resendCooldown ?s1 \<le> 30 \<and> configured ex_env \<longrightarrow>
      handleResendCode ex_env (Returns None) ((cooldown_tick ^^ 30) ?s1) =
        (?s1 \<lparr> st_error := [], st_resendCooldown := 60, st_otpCode := [], st_loading := False \<rparr>,
         [Auth_signInWithOtp (email (st_data ?s1))])" by blast
  with le h2 have "handleResendCode ex_env (Returns None) ((cooldown_tick ^^ 30) ?s1) =
        (?s1 \<lparr> st_error := [], st_resendCooldown := 60, st_otpCode := [], st_loading := False \<rparr>,
         [Auth_signInWithOtp (email (st_data ?s1))])" by blast
  then have "snd (handleResendCode ex_env (Returns None) ((cooldown_tick ^^ 30) ?s1)) =
      [Auth_signInWithOtp (email (st_data ?s1))]" by (simp only: snd_conv)
  with e have c: "snd (handleResendCode ex_env (Returns None) ((cooldown_tick ^^ 30) ?s1)) =
      [Auth_signInWithOtp ''jane@example.com'']" by (simp only:)
  from h1 h2 a b c show ?thesis by blast
qed

end
